theory Spec2Isabelle
  imports Complex_Main "HOL-Library.AList"
begin

section \<open>JavaScript primitives used by the services\<close>

text \<open>
  Strings are lists of characters (code units below 256).  A number read from a
  text is kept as the exact rational value of the decimal it denotes, with
  \<open>NaN\<close> and \<open>undefined\<close> written out as \<open>None\<close> where a function can
  return them.  Arithmetic is done on doubles: \<open>toDouble\<close> gives the double that
  a decimal is, and the operations round as in IEEE 754.
\<close>

definition isDigit :: "char \<Rightarrow> bool" where
  "isDigit c = (c \<in> set ''0123456789'')"

definition isWhiteSpace :: "char \<Rightarrow> bool" where
  "isWhiteSpace c = (c \<in> {CHR '' '', CHR 0x09, CHR 0x0A, CHR 0x0B, CHR 0x0C, CHR 0x0D, CHR 0xA0})"

text \<open>\<open>String.prototype.trim\<close>: white space is removed at both ends.\<close>

definition trim :: "string \<Rightarrow> string" where
  "trim s = rev (dropWhile isWhiteSpace (rev (dropWhile isWhiteSpace s)))"

text \<open>\<open>s.replace(a, b)\<close> with a string pattern replaces the first occurrence only.\<close>

fun replaceFirst :: "char \<Rightarrow> char \<Rightarrow> string \<Rightarrow> string" where
  "replaceFirst a b [] = []"
| "replaceFirst a b (c # cs) = (if c = a then b # cs else c # replaceFirst a b cs)"

definition digitVal :: "char \<Rightarrow> nat" where
  "digitVal c = of_char c - 48"

definition digitsVal :: "string \<Rightarrow> nat" where
  "digitsVal ds = foldl (\<lambda>a c. 10 * a + digitVal c) 0 ds"

text \<open>
  \<open>parseFloat\<close>: leading white space is skipped, then the longest prefix that is a
  decimal literal is read: an optional sign, digits, an optional fraction, an
  optional exponent.  When there is no such prefix the result is \<open>NaN\<close> (\<open>None\<close>).
  The literal \<open>Infinity\<close> is left out: the callers below strip every letter before
  they call \<open>parseFloat\<close>.
\<close>

definition splitSign :: "string \<Rightarrow> bool \<times> string" where
  "splitSign s = (case s of
       [] \<Rightarrow> (False, [])
     | c # r \<Rightarrow> if c = CHR ''-'' then (True, r)
               else if c = CHR ''+'' then (False, r)
               else (False, s))"

definition exponentPart :: "string \<Rightarrow> (bool \<times> nat) option" where
  "exponentPart s = (case s of
       [] \<Rightarrow> None
     | c # r \<Rightarrow>
         if c = CHR ''e'' \<or> c = CHR ''E'' then
           (let (neg, u) = splitSign r; ds = takeWhile isDigit u
            in if ds = [] then None else Some (neg, digitsVal ds))
         else None)"

text \<open>
  The unsigned part of the literal: the digits before the dot, the digits after
  it, and the text that follows them (where an exponent may start).
\<close>

definition unsignedLiteral :: "string \<Rightarrow> string \<times> string \<times> string" where
  "unsignedLiteral u =
     (let ip = takeWhile isDigit u;
          r1 = dropWhile isDigit u;
          hasDot = (r1 \<noteq> [] \<and> hd r1 = CHR ''.'');
          fp = (if hasDot then takeWhile isDigit (tl r1) else []);
          r2 = (if hasDot then dropWhile isDigit (tl r1) else r1)
      in (ip, fp, r2))"

definition parseFloat :: "string \<Rightarrow> rat option" where
  "parseFloat s =
     (let (neg, u) = splitSign (dropWhile isWhiteSpace s);
          (ip, fp, r2) = unsignedLiteral u
      in if ip = [] \<and> fp = [] then None
         else
           (let m = of_nat (digitsVal ip) + of_nat (digitsVal fp) / 10 ^ length fp;
                v = (case exponentPart r2 of
                       None \<Rightarrow> m
                     | Some (eneg, e) \<Rightarrow> if eneg then m / 10 ^ e else m * 10 ^ e)
            in Some (if neg then - v else v)))"

section \<open>Price parsing\<close>

text \<open>The character class \<open>[^\d,.-]\<close>: everything but digits, comma, dot and minus is removed.\<close>

definition keptByClean :: "char \<Rightarrow> bool" where
  "keptByClean c = (isDigit c \<or> c = CHR '','' \<or> c = CHR ''.'' \<or> c = CHR ''-'')"

definition normalizePrice :: "string \<Rightarrow> string" where
  "normalizePrice priceText = replaceFirst (CHR '','') (CHR ''.'') (filter keptByClean priceText)"

text \<open>\<open>HtmlParserService.parsePrice\<close> returns \<open>number | undefined\<close>.\<close>

definition HtmlParserService_parsePrice :: "string \<Rightarrow> rat option" where
  "HtmlParserService_parsePrice priceText =
     (if priceText = [] then None
      else parseFloat (normalizePrice priceText))"

text \<open>\<open>CartService.parsePrice\<close> returns a number, \<open>0\<close> when nothing parses.\<close>

definition CartService_parsePrice :: "string \<Rightarrow> rat" where
  "CartService_parsePrice priceText =
     (if priceText = [] then 0
      else (case parseFloat (normalizePrice priceText) of None \<Rightarrow> 0 | Some price \<Rightarrow> price))"

text \<open>The same text written with a dot for every comma.\<close>

definition commaToDot :: "string \<Rightarrow> string" where
  "commaToDot s = map (\<lambda>c. if c = CHR '','' then CHR ''.'' else c) s"

section \<open>Doubles\<close>

text \<open>
  A JavaScript number: a finite binary64 value, given by its exact rational
  value, an infinity or \<open>NaN\<close>.  The sign of a zero is not kept.
\<close>

datatype number = Finite rat | PosInf | NegInf | NaN

text \<open>The number of binary digits of a positive integer.\<close>

function bitLength :: "int \<Rightarrow> int" where
  "bitLength n = (if n \<le> 0 then 0 else 1 + bitLength (n div 2))"
  by auto
termination
  by (relation "measure nat") auto

declare bitLength.simps [simp del]

definition pow2 :: "int \<Rightarrow> rat" where
  "pow2 e = (if 0 \<le> e then 2 ^ nat e else 1 / 2 ^ nat (- e))"

text \<open>For a positive \<open>a\<close>, the exponent \<open>e\<close> with \<open>2^e \<le> a < 2^(e+1)\<close>.\<close>

definition binaryExponent :: "rat \<Rightarrow> int" where
  "binaryExponent a =
     (let (p, q) = quotient_of a;
          k = bitLength p - bitLength q
      in if pow2 k \<le> a then k else k - 1)"

definition roundHalfEven :: "rat \<Rightarrow> int" where
  "roundHalfEven m =
     (let f = \<lfloor>m\<rfloor>; d = m - of_int f
      in if d < 1 / 2 then f
         else if 1 / 2 < d then f + 1
         else if even f then f else f + 1)"

text \<open>
  Rounding to binary64: 53 significant bits, to nearest with ties to even;
  below \<open>2^-1022\<close> the spacing stays \<open>2^-1074\<close>; a result that reaches
  \<open>2^1024\<close> is an infinity.
\<close>

definition toDouble :: "rat \<Rightarrow> number" where
  "toDouble x =
     (if x = 0 then Finite 0
      else
        (let a = \<bar>x\<bar>;
             e = max (binaryExponent a) (- 1022);
             ulp = pow2 (e - 52);
             n = roundHalfEven (a / ulp)
         in if 1024 \<le> e \<or> (e = 1023 \<and> n = 2 ^ 53)
            then (if 0 < x then PosInf else NegInf)
            else Finite (if 0 < x then of_int n * ulp else - (of_int n * ulp))))"

text \<open>
  Subtraction, multiplication and division of doubles: the exact result,
  rounded, with the rules for infinities and \<open>NaN\<close>.  A zero divisor is taken as
  positive; the one division below has a divisor that is not zero.
\<close>

definition num_sub :: "number \<Rightarrow> number \<Rightarrow> number" where
  "num_sub x y =
     (case (x, y) of
        (NaN, _) \<Rightarrow> NaN
      | (_, NaN) \<Rightarrow> NaN
      | (Finite a, Finite b) \<Rightarrow> toDouble (a - b)
      | (Finite a, PosInf) \<Rightarrow> NegInf
      | (Finite a, NegInf) \<Rightarrow> PosInf
      | (PosInf, PosInf) \<Rightarrow> NaN
      | (PosInf, _) \<Rightarrow> PosInf
      | (NegInf, NegInf) \<Rightarrow> NaN
      | (NegInf, _) \<Rightarrow> NegInf)"

text \<open>The sign of a double that is not \<open>NaN\<close>: \<open>1\<close>, \<open>0\<close> or \<open>-1\<close>.\<close>

definition num_sign :: "number \<Rightarrow> int" where
  "num_sign x =
     (case x of
        Finite r \<Rightarrow> if 0 < r then 1 else if r < 0 then - 1 else 0
      | PosInf \<Rightarrow> 1
      | NegInf \<Rightarrow> - 1
      | NaN \<Rightarrow> 0)"

definition signedInf :: "int \<Rightarrow> number" where
  "signedInf s = (if 0 < s then PosInf else NegInf)"

definition num_mul :: "number \<Rightarrow> number \<Rightarrow> number" where
  "num_mul x y =
     (case (x, y) of
        (NaN, _) \<Rightarrow> NaN
      | (_, NaN) \<Rightarrow> NaN
      | (Finite a, Finite b) \<Rightarrow> toDouble (a * b)
      | _ \<Rightarrow> if num_sign x * num_sign y = 0 then NaN else signedInf (num_sign x * num_sign y))"

definition num_div :: "number \<Rightarrow> number \<Rightarrow> number" where
  "num_div x y =
     (case (x, y) of
        (NaN, _) \<Rightarrow> NaN
      | (_, NaN) \<Rightarrow> NaN
      | (Finite a, Finite b) \<Rightarrow>
          if b = 0 then (if a = 0 then NaN else signedInf (num_sign x))
          else toDouble (a / b)
      | (Finite a, _) \<Rightarrow> Finite 0
      | (_, Finite b) \<Rightarrow> signedInf (num_sign x * (if b < 0 then - 1 else 1))
      | _ \<Rightarrow> NaN)"

section \<open>HtmlParserService\<close>

text \<open>
  The document that \<open>cheerio.load\<close> returns is a function from a selector to the
  elements it matches, in document order.  An element carries its text, its
  attributes and the matches of \<open>find\<close> below it.  The selector engine itself is a
  library and stays abstract: every theorem below holds for every document.
\<close>

datatype element =
  Element (elemText: string) (elemAttrs: "(string \<times> string) list") (elemFind: "string \<Rightarrow> element list")

type_synonym cheerioAPI = "string \<Rightarrow> element list"

text \<open>\<open>.text()\<close> of a selection concatenates the texts of its elements.\<close>

definition selText :: "element list \<Rightarrow> string" where
  "selText sel = concat (map elemText sel)"

text \<open>\<open>.first().text().trim()\<close>; the first of an empty selection is empty.\<close>

definition firstText :: "element list \<Rightarrow> string" where
  "firstText sel = trim (selText (take 1 sel))"

text \<open>\<open>.first().attr(a)\<close>, \<open>undefined\<close> when there is no element or no such attribute.\<close>

definition firstAttr :: "element list \<Rightarrow> string \<Rightarrow> string option" where
  "firstAttr sel a = (case sel of [] \<Rightarrow> None | e # _ \<Rightarrow> map_of (elemAttrs e) a)"

record ParsedProductData =
  pd_id :: string
  pd_name :: string
  pd_price :: rat
  pd_originalPrice :: "rat option"
  pd_discount :: "number option"
  pd_unit :: string
  pd_unitPrice :: rat
  pd_unitType :: string
  pd_weight :: "string option"
  pd_description :: "string option"
  pd_imageUrl :: "string option"
  pd_category :: "string option"
  pd_tags :: "string list"
  pd_inStock :: bool
  pd_nutritionalInfo :: "(string \<times> string) list option"
  pd_ingredients :: "string option"

text \<open>
  The loop \<open>for (const selector of selectors) { const t = $(selector).first().text().trim();
  if (t) return t; } return undefined;\<close> shared by the text extractors.
\<close>

fun firstNonEmptyText :: "cheerioAPI \<Rightarrow> string list \<Rightarrow> string option" where
  "firstNonEmptyText doc [] = None"
| "firstNonEmptyText doc (selector # selectors) =
     (let t = firstText (doc selector)
      in if t \<noteq> [] then Some t else firstNonEmptyText doc selectors)"

text \<open>
  The loop of the price extractors: the first selector whose text parses is taken.
\<close>

fun firstParsedPrice :: "cheerioAPI \<Rightarrow> string list \<Rightarrow> rat option" where
  "firstParsedPrice doc [] = None"
| "firstParsedPrice doc (selector # selectors) =
     (case HtmlParserService_parsePrice (firstText (doc selector)) of
        Some price \<Rightarrow> Some price
      | None \<Rightarrow> firstParsedPrice doc selectors)"

definition extractProductName :: "cheerioAPI \<Rightarrow> string option" where
  "extractProductName doc = firstNonEmptyText doc
     [''h1[data-test=\"product-title\"]'', ''.product-title'', ''.productTitle'', ''h1.title'',
      ''[data-test=\"product-name\"]'', ''.product-name'']"

definition extractPrice :: "cheerioAPI \<Rightarrow> rat option" where
  "extractPrice doc = firstParsedPrice doc
     [''[data-test=\"product-price\"]'', ''.price-current'', ''.product-price'', ''.price'',
      ''[data-test=\"price\"]'']"

definition extractOriginalPrice :: "cheerioAPI \<Rightarrow> rat option" where
  "extractOriginalPrice doc = firstParsedPrice doc
     [''[data-test=\"product-price-original\"]'', ''.price-original'', ''.price-crossed'',
      ''.original-price'', ''.price-before'']"

definition extractUnit :: "cheerioAPI \<Rightarrow> string option" where
  "extractUnit doc =
     (case firstNonEmptyText doc [''[data-test=\"product-unit\"]'', ''.product-unit'', ''.unit''] of
        Some u \<Rightarrow> Some u
      | None \<Rightarrow> Some ''ks'')"

definition extractUnitPrice :: "cheerioAPI \<Rightarrow> rat option" where
  "extractUnitPrice doc = firstParsedPrice doc
     [''[data-test=\"unit-price\"]'', ''.unit-price'', ''.price-per-unit'']"

definition extractUnitType :: "cheerioAPI \<Rightarrow> string option" where
  "extractUnitType doc =
     (case firstNonEmptyText doc [''[data-test=\"unit-type\"]'', ''.unit-type''] of
        Some u \<Rightarrow> Some u
      | None \<Rightarrow> Some ''ks'')"

definition startsWith :: "string \<Rightarrow> string \<Rightarrow> bool" where
  "startsWith s p = (take (length p) s = p)"

fun firstImageSrc :: "cheerioAPI \<Rightarrow> string list \<Rightarrow> string option" where
  "firstImageSrc doc [] = None"
| "firstImageSrc doc (selector # selectors) =
     (case firstAttr (doc selector) ''src'' of
        None \<Rightarrow> firstImageSrc doc selectors
      | Some src \<Rightarrow>
          if src \<noteq> [] then Some (if startsWith src ''http'' then src else ''https://www.rohlik.cz'' @ src)
          else firstImageSrc doc selectors)"

definition extractImageUrl :: "cheerioAPI \<Rightarrow> string option" where
  "extractImageUrl doc = firstImageSrc doc
     [''[data-test=\"product-image\"] img'', ''.product-image img'', ''.productImage img'',
      ''img[alt*=\"product\"]'']"

definition extractDescription :: "cheerioAPI \<Rightarrow> string option" where
  "extractDescription doc = firstNonEmptyText doc
     [''[data-test=\"product-description\"]'', ''.product-description'', ''.description'',
      ''.product-info'']"

definition extractCategory :: "cheerioAPI \<Rightarrow> string option" where
  "extractCategory doc = firstNonEmptyText doc
     [''[data-test=\"breadcrumb\"] a:last-child'', ''.breadcrumb a:last-child'', ''.category-name'']"

definition extractTags :: "cheerioAPI \<Rightarrow> string list" where
  "extractTags doc =
     foldl (\<lambda>tags e. let tag = trim (elemText e)
                      in if tag \<noteq> [] \<and> tag \<notin> set tags then tags @ [tag] else tags)
       []
       (concat (map doc [''[data-test=\"product-tag\"]'', ''.product-tag'', ''.tag'', ''.badge'', ''.label'']))"

definition extractStockStatus :: "cheerioAPI \<Rightarrow> bool" where
  "extractStockStatus doc =
     list_all (\<lambda>selector. length (doc selector) = 0)
       [''[data-test=\"out-of-stock\"]'', ''.out-of-stock'', ''.unavailable'', ''.sold-out'']"

definition extractWeight :: "cheerioAPI \<Rightarrow> string option" where
  "extractWeight doc = firstNonEmptyText doc
     [''[data-test=\"product-weight\"]'', ''.product-weight'', ''.weight'']"

definition extractNutritionalInfo :: "cheerioAPI \<Rightarrow> (string \<times> string) list option" where
  "extractNutritionalInfo doc =
     (let nutritionalInfo =
            foldl (\<lambda>info row.
                     let label = trim (selText (elemFind row ''td:first-child, th:first-child''));
                         val = trim (selText (elemFind row ''td:last-child, th:last-child''))
                     in if label \<noteq> [] \<and> val \<noteq> [] \<and> label \<noteq> val
                        then AList.update label val info else info)
              []
              (doc ''.nutritional-info tr, .nutrition-table tr'')
      in if length nutritionalInfo > 0 then Some nutritionalInfo else None)"

definition extractIngredients :: "cheerioAPI \<Rightarrow> string option" where
  "extractIngredients doc = firstNonEmptyText doc
     [''[data-test=\"ingredients\"]'', ''.ingredients'', ''.composition'']"

text \<open>\<open>Math.round\<close>: the nearest integer, a half towards plus infinity.\<close>

definition Math_round :: "number \<Rightarrow> number" where
  "Math_round x = (case x of Finite r \<Rightarrow> Finite (of_int \<lfloor>r + 1 / 2\<rfloor>) | _ \<Rightarrow> x)"

text \<open>
  A price that was read is truthy when it is neither \<open>undefined\<close> nor zero; a
  double is truthy when it is neither zero nor \<open>NaN\<close>.
\<close>

definition truthyNum :: "rat option \<Rightarrow> bool" where
  "truthyNum v = (case v of None \<Rightarrow> False | Some x \<Rightarrow> x \<noteq> 0)"

definition truthyDouble :: "number \<Rightarrow> bool" where
  "truthyDouble d = (d \<noteq> Finite 0 \<and> d \<noteq> NaN)"

text \<open>
  \<open>originalPrice && price ? Math.round(((originalPrice - price) / originalPrice) * 100) : undefined\<close>,
  computed on the doubles that the two prices are.
\<close>

definition calcDiscount :: "rat option \<Rightarrow> rat option \<Rightarrow> number option" where
  "calcDiscount originalPrice price =
     (case (originalPrice, price) of
        (Some op, Some p) \<Rightarrow>
          (let originalDouble = toDouble op; priceDouble = toDouble p
           in if truthyDouble originalDouble \<and> truthyDouble priceDouble
              then Some (Math_round
                           (num_mul (num_div (num_sub originalDouble priceDouble) originalDouble)
                              (Finite 100)))
              else None)
      | _ \<Rightarrow> None)"

text \<open>\<open>a || b\<close> on an optional number and on an optional string.\<close>

definition orNum :: "rat option \<Rightarrow> rat \<Rightarrow> rat" where
  "orNum v d = (if truthyNum v then the v else d)"

definition orStr :: "string option \<Rightarrow> string \<Rightarrow> string" where
  "orStr v d = (case v of None \<Rightarrow> d | Some s \<Rightarrow> if s \<noteq> [] then s else d)"

text \<open>
  \<open>parseProductPage\<close>.  \<open>load\<close> is \<open>cheerio.load\<close>; \<open>None\<close> stands for an exception
  thrown inside the \<open>try\<close> block, which the \<open>catch\<close> turns into \<open>null\<close>.  Logging
  is left out.
\<close>

definition parseProductPage ::
  "(string \<Rightarrow> cheerioAPI option) \<Rightarrow> string \<Rightarrow> string \<Rightarrow> ParsedProductData option" where
  "parseProductPage load html productId =
     (case load html of
        None \<Rightarrow> None
      | Some doc \<Rightarrow>
          (let name = extractProductName doc;
               price = extractPrice doc;
               originalPrice = extractOriginalPrice doc;
               unit = extractUnit doc;
               unitPrice = extractUnitPrice doc;
               unitType = extractUnitType doc;
               imageUrl = extractImageUrl doc;
               description = extractDescription doc;
               category = extractCategory doc;
               tags = extractTags doc;
               inStock = extractStockStatus doc;
               weight = extractWeight doc;
               nutritionalInfo = extractNutritionalInfo doc;
               ingredients = extractIngredients doc;
               discount = calcDiscount originalPrice price
           in Some \<lparr> pd_id = productId,
                     pd_name = orStr name ''Unknown Product'',
                     pd_price = orNum price 0,
                     pd_originalPrice = originalPrice,
                     pd_discount = discount,
                     pd_unit = orStr unit ''ks'',
                     pd_unitPrice = orNum unitPrice (orNum price 0),
                     pd_unitType = orStr unitType ''ks'',
                     pd_weight = weight,
                     pd_description = description,
                     pd_imageUrl = imageUrl,
                     pd_category = category,
                     pd_tags = tags,
                     pd_inStock = inStock,
                     pd_nutritionalInfo = nutritionalInfo,
                     pd_ingredients = ingredients \<rparr>))"

text \<open>
  \<open>parseProductCard\<close>: a card of a listing page.  \<open>find\<close> does not throw, so the
  \<open>catch\<close> branch has no counterpart here.
\<close>

definition parseProductCard :: "element \<Rightarrow> string \<Rightarrow> ParsedProductData option" where
  "parseProductCard product productId =
     (let name = firstText (elemFind product ''.product-name, .productName, [data-test=\"product-name\"]'');
          priceText = firstText (elemFind product ''.price, .product-price, [data-test=\"price\"]'');
          price = HtmlParserService_parsePrice priceText
      in if name = [] \<or> price = None then None
         else Some \<lparr> pd_id = productId,
                     pd_name = name,
                     pd_price = the price,
                     pd_originalPrice = None,
                     pd_discount = None,
                     pd_unit = ''ks'',
                     pd_unitPrice = the price,
                     pd_unitType = ''ks'',
                     pd_weight = None,
                     pd_description = None,
                     pd_imageUrl = None,
                     pd_category = None,
                     pd_tags = [],
                     pd_inStock = True,
                     pd_nutritionalInfo = None,
                     pd_ingredients = None \<rparr>)"

section \<open>SessionManager\<close>

text \<open>
  Dates are milliseconds since the epoch.  Every reading of the clock
  (\<open>new Date()\<close>, \<open>Date.now()\<close>) is an argument of the function that reads it.
  The cookie jar is the list of the cookies stored in it, each with the URL it
  was stored for; \<open>new CookieJar()\<close> is the empty list.
\<close>

datatype error = Error (message: string)

type_synonym CookieJar = "(string \<times> string) list"

record SessionData =
  sessionId :: "string option"
  userId :: "string option"
  email :: "string option"
  isAuthenticated :: bool
  lastActivity :: int
  expiresAt :: int

record SessionManager =
  cookieJar :: CookieJar
  sessionData :: SessionData
  sessionTimeout :: int

text \<open>The constructor; \<open>timeoutMinutes\<close> is \<open>config.getNumber('SESSION_TIMEOUT_MINUTES')\<close>.\<close>

definition SessionManager_new :: "int \<Rightarrow> int \<Rightarrow> int \<Rightarrow> SessionManager" where
  "SessionManager_new timeoutMinutes tNew tNow =
     \<lparr> cookieJar = [],
       sessionData = \<lparr> sessionId = None, userId = None, email = None,
                       isAuthenticated = False,
                       lastActivity = tNew,
                       expiresAt = tNow + timeoutMinutes * 60 * 1000 \<rparr>,
       sessionTimeout = timeoutMinutes * 60 * 1000 \<rparr>"

definition clearSession :: "int \<Rightarrow> int \<Rightarrow> SessionManager \<Rightarrow> SessionManager" where
  "clearSession tNew tNow sm =
     sm \<lparr> sessionData := \<lparr> sessionId = None, userId = None, email = None,
                            isAuthenticated = False,
                            lastActivity = tNew,
                            expiresAt = tNow + sessionTimeout sm \<rparr>,
          cookieJar := [] \<rparr>"

text \<open>
  \<open>isSessionValid\<close> returns the flag and the manager it leaves behind; \<open>now\<close> is
  its own reading of the clock, \<open>tNew\<close> and \<open>tNow\<close> are the two readings of
  \<open>clearSession\<close>.
\<close>

definition isSessionValid :: "int \<Rightarrow> int \<Rightarrow> int \<Rightarrow> SessionManager \<Rightarrow> bool \<times> SessionManager" where
  "isSessionValid now tNew tNow sm =
     (let isValid = (isAuthenticated (sessionData sm) \<and> now < expiresAt (sessionData sm))
      in if \<not> isValid \<and> isAuthenticated (sessionData sm)
         then (isValid, clearSession tNew tNow sm)
         else (isValid, sm))"

definition updateActivity :: "int \<Rightarrow> SessionManager \<Rightarrow> SessionManager" where
  "updateActivity now sm =
     sm \<lparr> sessionData := (sessionData sm) \<lparr> lastActivity := now,
                                             expiresAt := now + sessionTimeout sm \<rparr> \<rparr>"

definition setAuthenticated ::
  "int \<Rightarrow> string \<Rightarrow> string option \<Rightarrow> string option \<Rightarrow> SessionManager \<Rightarrow> SessionManager" where
  "setAuthenticated now sid uid mail sm =
     sm \<lparr> sessionData := \<lparr> sessionId = Some sid, userId = uid, email = mail,
                            isAuthenticated = True,
                            lastActivity = now,
                            expiresAt = now + sessionTimeout sm \<rparr> \<rparr>"

text \<open>
  \<open>needsRenewal\<close>.  The threshold \<open>sessionTimeout * 0.2\<close> is taken exactly, as a
  fifth of the timeout.  (The timeout is a whole number of minutes in
  milliseconds, a multiple of five; for such a value below \<open>2^53\<close> the double
  product rounds to the exact fifth.)
\<close>

definition needsRenewal :: "int \<Rightarrow> SessionManager \<Rightarrow> bool" where
  "needsRenewal now sm =
     (if \<not> isAuthenticated (sessionData sm) then False
      else
        (let timeUntilExpiry = expiresAt (sessionData sm) - now;
             renewalThreshold = (of_int (sessionTimeout sm) :: rat) * (2 / 10)
         in of_int timeUntilExpiry < renewalThreshold))"

section \<open>RohlikClient\<close>

record httpRequest =
  reqMethod :: string
  reqUrl :: string
  reqBody :: "(string \<times> string) list"
  reqHeaders :: "(string \<times> string) list"

text \<open>
  \<open>resDataSuccess\<close> is the value of \<open>response.data?.success === true\<close>;
  \<open>resSetCookie\<close> are the \<open>set-cookie\<close> headers.
\<close>

record httpResponse =
  resStatus :: int
  resData :: string
  resDataSuccess :: bool
  resSetCookie :: "string list"

text \<open>
  Modelled from the spec: the class \<open>RateLimiterMemory\<close> of the package
  \<open>rate-limiter-flexible\<close> is not among the sources.  It is a fixed-window
  counter: at most \<open>points\<close> units per window of \<open>duration\<close> seconds; \<open>consume\<close>
  takes one unit and fails at once when the window is exhausted.  The window opens
  with the first unit taken after the previous window has ended.  \<open>storage\<close>
  holds the units taken in the current window and the time the window ends, for
  the one key \<open>'rohlik-client'\<close> the client uses.
\<close>

record RateLimiterMemory =
  points :: int
  duration :: int
  storage :: "(int \<times> int) option"

text \<open>
  Modelled from the spec: \<open>RateLimiterMemory.consume\<close>, not among the sources.
  One unit is taken at time \<open>now\<close>; the result says whether the unit was within
  the quota (the promise resolves) or not (it rejects).  A unit that is refused
  is counted as well.
\<close>

definition consume :: "int \<Rightarrow> RateLimiterMemory \<Rightarrow> bool \<times> RateLimiterMemory" where
  "consume now rl =
     (let (consumed, windowEnd) =
            (case storage rl of
               Some (v, e) \<Rightarrow> if now < e then (v + 1, e) else (1, now + duration rl * 1000)
             | None \<Rightarrow> (1, now + duration rl * 1000))
      in (consumed \<le> points rl, rl \<lparr> storage := Some (consumed, windowEnd) \<rparr>))"

record RohlikClient =
  baseURL :: string
  sessionManager :: SessionManager
  rateLimiter :: RateLimiterMemory

text \<open>
  What the client does not contain: the network behind axios (\<open>adapter\<close>: the
  answer to a request, given the requests sent before it, or the error axios
  rejects with), the cookie matching of \<open>tough-cookie\<close> (\<open>jarCookieString\<close> and
  \<open>jarSetCookie\<close>, either of which may throw) and the URL resolution
  \<open>new URL(url, baseURL).toString()\<close>, which throws on a URL it cannot parse
  (\<open>resolveUrl\<close>, with \<open>Inl\<close> for the error thrown).
\<close>

record network =
  adapter :: "httpRequest list \<Rightarrow> httpRequest \<Rightarrow> error + httpResponse"
  jarCookieString :: "CookieJar \<Rightarrow> string \<Rightarrow> error + string"
  jarSetCookie :: "string \<Rightarrow> string \<Rightarrow> CookieJar \<Rightarrow> error + CookieJar"
  resolveUrl :: "string \<Rightarrow> string \<Rightarrow> error + string"

text \<open>The constructor; \<open>perMinute\<close> is \<open>config.getNumber('RATE_LIMIT_REQUESTS_PER_MINUTE')\<close>.\<close>

definition RohlikClient_new :: "string \<Rightarrow> int \<Rightarrow> int \<Rightarrow> int \<Rightarrow> int \<Rightarrow> RohlikClient" where
  "RohlikClient_new base perMinute timeoutMinutes tNew tNow =
     \<lparr> baseURL = base,
       sessionManager = SessionManager_new timeoutMinutes tNew tNow,
       rateLimiter = \<lparr> points = perMinute, duration = 60, storage = None \<rparr> \<rparr>"

text \<open>\<open>SessionManager.getCookieString\<close>: an error of the jar is logged and gives the empty string.\<close>

definition getCookieString :: "network \<Rightarrow> SessionManager \<Rightarrow> string \<Rightarrow> string" where
  "getCookieString net sm url =
     (case jarCookieString net (cookieJar sm) url of Inl e \<Rightarrow> [] | Inr s \<Rightarrow> s)"

text \<open>
  \<open>SessionManager.setCookiesFromResponse\<close>: the loop is inside the \<open>try\<close>, so the
  first cookie the jar refuses ends it; the cookies stored before stay.
\<close>

fun setCookiesFromResponse :: "network \<Rightarrow> string \<Rightarrow> string list \<Rightarrow> SessionManager \<Rightarrow> SessionManager" where
  "setCookiesFromResponse net url [] sm = sm"
| "setCookiesFromResponse net url (cookie # cookies) sm =
     (case jarSetCookie net cookie url (cookieJar sm) of
        Inl e \<Rightarrow> sm
      | Inr jar \<Rightarrow> setCookiesFromResponse net url cookies (sm \<lparr> cookieJar := jar \<rparr>))"

text \<open>
  The request interceptor.  \<open>tConsume\<close> is the time at which the limiter is asked,
  \<open>tActivity\<close> the reading of \<open>updateActivity\<close>.  The URL is resolved after the
  unit has been taken and before the activity is updated; an error thrown there
  rejects the request.
\<close>

definition requestInterceptor ::
  "network \<Rightarrow> int \<Rightarrow> int \<Rightarrow> httpRequest \<Rightarrow> RohlikClient \<Rightarrow> (error + httpRequest) \<times> RohlikClient" where
  "requestInterceptor net tConsume tActivity config c =
     (let (granted, rl) = consume tConsume (rateLimiter c);
          c1 = c \<lparr> rateLimiter := rl \<rparr>
      in if \<not> granted then (Inl (Error ''Rate limit exceeded''), c1)
         else
           (case (if reqUrl config \<noteq> []
                  then (case resolveUrl net (reqUrl config) (baseURL c1) of
                          Inl e \<Rightarrow> Inl e
                        | Inr fullUrl \<Rightarrow> Inr (getCookieString net (sessionManager c1) fullUrl))
                  else Inr []) of
              Inl e \<Rightarrow> (Inl e, c1)
            | Inr cookieString \<Rightarrow>
                (let config1 =
                       (if cookieString \<noteq> []
                        then config \<lparr> reqHeaders := AList.update ''Cookie'' cookieString (reqHeaders config) \<rparr>
                        else config);
                     c2 = c1 \<lparr> sessionManager := updateActivity tActivity (sessionManager c1) \<rparr>
                 in (Inr config1, c2))))"

text \<open>
  The response interceptor stores the cookies of the answer.  It resolves the
  URL again, and an error thrown there rejects the request although the answer
  has arrived.
\<close>

definition responseInterceptor ::
  "network \<Rightarrow> httpRequest \<Rightarrow> httpResponse \<Rightarrow> RohlikClient \<Rightarrow> (error + httpResponse) \<times> RohlikClient" where
  "responseInterceptor net config response c =
     (if resSetCookie response \<noteq> [] \<and> reqUrl config \<noteq> []
      then (case resolveUrl net (reqUrl config) (baseURL c) of
              Inl e \<Rightarrow> (Inl e, c)
            | Inr fullUrl \<Rightarrow>
                (Inr response,
                 c \<lparr> sessionManager :=
                       setCookiesFromResponse net fullUrl (resSetCookie response) (sessionManager c) \<rparr>))
      else (Inr response, c))"

text \<open>
  One request through the axios instance (\<open>get\<close>, \<open>post\<close>, \<open>put\<close>, \<open>delete\<close> all
  go this way).  The second component of the state is the list of the requests
  handed to the network, oldest first.  A request the interceptor rejects never
  reaches the network.
\<close>

definition request ::
  "network \<Rightarrow> int \<Rightarrow> int \<Rightarrow> httpRequest \<Rightarrow> RohlikClient \<times> httpRequest list
     \<Rightarrow> (error + httpResponse) \<times> (RohlikClient \<times> httpRequest list)" where
  "request net tConsume tActivity config st =
     (let (c, sent) = st
      in case requestInterceptor net tConsume tActivity config c of
           (Inl e, c1) \<Rightarrow> (Inl e, (c1, sent))
         | (Inr config1, c2) \<Rightarrow>
             (case adapter net sent config1 of
                Inl e \<Rightarrow> (Inl e, (c2, sent @ [config1]))
              | Inr response \<Rightarrow>
                  (case responseInterceptor net config1 response c2 of
                     (r, c3) \<Rightarrow> (r, (c3, sent @ [config1])))))"

text \<open>A request whose URL is empty or can be resolved against the base URL.\<close>

definition resolvable :: "network \<Rightarrow> string \<Rightarrow> httpRequest \<Rightarrow> bool" where
  "resolvable net base config = (reqUrl config = [] \<or> \<not> isl (resolveUrl net (reqUrl config) base))"

text \<open>A sequence of requests, each with the time it is made at; the answers are dropped.\<close>

fun requests ::
  "network \<Rightarrow> (int \<times> httpRequest) list \<Rightarrow> RohlikClient \<times> httpRequest list
     \<Rightarrow> RohlikClient \<times> httpRequest list" where
  "requests net [] st = st"
| "requests net ((t, config) # rest) st = requests net rest (snd (request net t t config st))"

section \<open>ProductService and CartService\<close>

text \<open>
  The services reach the shop through their \<open>RohlikClient\<close>.  Here the client and
  the network behind it are one function, \<open>transport\<close>: the outcome of a request,
  given the requests made before it (an answer, or the error the client rejects
  with: rate limit, network, status).  \<open>load\<close> is \<open>cheerio.load\<close> (\<open>None\<close>: it
  throws).  \<open>parseCartFromHtml\<close> is left open: the theorems hold for every way of
  reading a cart from a page.
\<close>

record 'cart env =
  transport :: "httpRequest list \<Rightarrow> httpRequest \<Rightarrow> error + httpResponse"
  load :: "string \<Rightarrow> cheerioAPI option"
  parseCartFromHtml :: "string \<Rightarrow> 'cart"

text \<open>
  The state of the services: the flag of \<open>authService\<close>, the product cache (each
  entry with its \<open>_cacheTime\<close>), the cart cache and the requests made so far,
  oldest first.  \<open>formCalls\<close> is a ghost counter that is not in the source: it
  counts the calls of the form steps, and nothing reads it.
\<close>

record 'cart world =
  authenticated :: bool
  productCache :: "string \<rightharpoonup> (ParsedProductData \<times> int)"
  cartCache :: "'cart option"
  netLog :: "httpRequest list"
  formCalls :: nat

record AddToCartRequest =
  productId :: string
  quantity :: int

type_synonym UpdateCartItemRequest = AddToCartRequest

definition client_get :: "'cart env \<Rightarrow> string \<Rightarrow> 'cart world \<Rightarrow> (error + httpResponse) \<times> 'cart world" where
  "client_get ev url w =
     (let config = \<lparr> reqMethod = ''GET'', reqUrl = url, reqBody = [], reqHeaders = [] \<rparr>
      in (transport ev (netLog w) config, w \<lparr> netLog := netLog w @ [config] \<rparr>))"

definition client_post ::
  "'cart env \<Rightarrow> string \<Rightarrow> (string \<times> string) list \<Rightarrow> (string \<times> string) list \<Rightarrow> 'cart world
     \<Rightarrow> (error + httpResponse) \<times> 'cart world" where
  "client_post ev url body headers w =
     (let config = \<lparr> reqMethod = ''POST'', reqUrl = url, reqBody = body, reqHeaders = headers \<rparr>
      in (transport ev (netLog w) config, w \<lparr> netLog := netLog w @ [config] \<rparr>))"

text \<open>\<open>Number.prototype.toString\<close> on a whole number.\<close>

fun natToString :: "nat \<Rightarrow> string" where
  "natToString n =
     (if n < 10 then [''0123456789'' ! n]
      else natToString (n div 10) @ [''0123456789'' ! (n mod 10)])"

declare natToString.simps [simp del]

definition numToString :: "int \<Rightarrow> string" where
  "numToString i = (if i < 0 then CHR ''-'' # natToString (nat (- i)) else natToString (nat i))"

text \<open>
  \<open>URLSearchParams\<close>: \<open>append\<close> adds a pair at the end; \<open>set\<close> overwrites the
  first pair of that name and drops the others, or appends when there is none.
\<close>

definition params_append :: "string \<Rightarrow> string \<Rightarrow> (string \<times> string) list \<Rightarrow> (string \<times> string) list" where
  "params_append k v ps = ps @ [(k, v)]"

fun params_set :: "string \<Rightarrow> string \<Rightarrow> (string \<times> string) list \<Rightarrow> (string \<times> string) list" where
  "params_set k v [] = [(k, v)]"
| "params_set k v ((k', v') # ps) =
     (if k' = k then (k, v) # filter (\<lambda>p. fst p \<noteq> k) ps else (k', v') # params_set k v ps)"

text \<open>
  The loop over \<open>form.find('input')\<close>: a field is taken when both its \<open>name\<close> and
  its value are non-empty.
\<close>

definition collectInputs :: "element list \<Rightarrow> (string \<times> string) list" where
  "collectInputs inputs =
     foldl (\<lambda>formData input.
              case (map_of (elemAttrs input) ''name'', map_of (elemAttrs input) ''value'') of
                (Some n, Some v) \<Rightarrow> if n \<noteq> [] \<and> v \<noteq> [] then params_append n v formData else formData
              | _ \<Rightarrow> formData)
       [] inputs"

subsection \<open>ProductService.getProduct\<close>

definition cacheTimeout :: int where
  "cacheTimeout = 10 * 60 * 1000"

definition getCachedProduct :: "int \<Rightarrow> string \<Rightarrow> 'cart world \<Rightarrow> ParsedProductData option \<times> 'cart world" where
  "getCachedProduct now pid w =
     (case productCache w pid of
        None \<Rightarrow> (None, w)
      | Some (cached, cacheTime) \<Rightarrow>
          if now - cacheTime > cacheTimeout
          then (None, w \<lparr> productCache := (productCache w)(pid := None) \<rparr>)
          else (Some cached, w))"

definition cacheProduct :: "int \<Rightarrow> string \<Rightarrow> ParsedProductData \<Rightarrow> 'cart world \<Rightarrow> 'cart world" where
  "cacheProduct now pid product w = w \<lparr> productCache := (productCache w)(pid \<mapsto> (product, now)) \<rparr>"

text \<open>
  \<open>getProduct\<close> catches every error and returns \<open>null\<close>.  \<open>tRead\<close> and \<open>tStore\<close>
  are the clock readings of the cache lookup and of the cache store.
\<close>

definition getProduct ::
  "'cart env \<Rightarrow> int \<Rightarrow> int \<Rightarrow> string \<Rightarrow> 'cart world \<Rightarrow> ParsedProductData option \<times> 'cart world" where
  "getProduct ev tRead tStore pid w =
     (case getCachedProduct tRead pid w of
        (Some cachedProduct, w1) \<Rightarrow> (Some cachedProduct, w1)
      | (None, w1) \<Rightarrow>
          (case client_get ev (''/'' @ pid @ ''-'') w1 of
             (Inl e, w2) \<Rightarrow> (None, w2)
           | (Inr response, w2) \<Rightarrow>
               if resData response = [] then (None, w2)
               else
                 (case parseProductPage (load ev) (resData response) pid of
                    None \<Rightarrow> (None, w2)
                  | Some productData \<Rightarrow> (Some productData, cacheProduct tStore pid productData w2))))"

subsection \<open>CartService\<close>

definition getCart :: "'cart env \<Rightarrow> 'cart world \<Rightarrow> (error + 'cart) \<times> 'cart world" where
  "getCart ev w =
     (if \<not> authenticated w then (Inl (Error ''User must be authenticated to access cart''), w)
      else
        (case client_get ev ''/kosik'' w of
           (Inl e, w1) \<Rightarrow> (Inl e, w1)
         | (Inr response, w1) \<Rightarrow>
             (let cartSummary = parseCartFromHtml ev (resData response)
              in (Inr cartSummary, w1 \<lparr> cartCache := Some cartSummary \<rparr>))))"

text \<open>
  The six private steps.  Each has a \<open>try\<close> around its whole body whose \<open>catch\<close>
  returns \<open>false\<close>; the result type keeps the error side, which the callers
  handle, although no step produces it.
\<close>

definition addToCartViaApi :: "'cart env \<Rightarrow> AddToCartRequest \<Rightarrow> 'cart world \<Rightarrow> (error + bool) \<times> 'cart world" where
  "addToCartViaApi ev req w =
     (case client_post ev ''/api/cart/add''
             [(''productId'', productId req), (''quantity'', numToString (quantity req))] [] w of
        (Inl e, w1) \<Rightarrow> (Inr False, w1)
      | (Inr response, w1) \<Rightarrow> (Inr (resStatus response = 200 \<and> resDataSuccess response), w1))"

definition formHeaders :: "(string \<times> string) list" where
  "formHeaders = [(''Content-Type'', ''application/x-www-form-urlencoded'')]"

definition addToCartViaForm :: "'cart env \<Rightarrow> AddToCartRequest \<Rightarrow> 'cart world \<Rightarrow> (error + bool) \<times> 'cart world" where
  "addToCartViaForm ev req w0 =
     (let w = w0 \<lparr> formCalls := formCalls w0 + 1 \<rparr>
      in case client_get ev (''/'' @ productId req) w of
           (Inl e, w1) \<Rightarrow> (Inr False, w1)
         | (Inr productResponse, w1) \<Rightarrow>
             (case load ev (resData productResponse) of
                None \<Rightarrow> (Inr False, w1)
              | Some doc \<Rightarrow>
                  (let form = take 1 (doc ''form[action*=\"cart\"], form[action*=\"kosik\"], .add-to-cart-form'');
                       formAction = orStr (firstAttr form ''action'') ''/kosik/pridat'';
                       formData = collectInputs (concat (map (\<lambda>f. elemFind f ''input'') form));
                       formData1 = params_set ''product_id'' (productId req) formData;
                       formData2 = params_set ''quantity'' (numToString (quantity req)) formData1
                   in case client_post ev formAction formData2 formHeaders w1 of
                        (Inl e, w2) \<Rightarrow> (Inr False, w2)
                      | (Inr response, w2) \<Rightarrow> (Inr (resStatus response < 400), w2))))"

definition updateCartViaApi :: "'cart env \<Rightarrow> UpdateCartItemRequest \<Rightarrow> 'cart world \<Rightarrow> (error + bool) \<times> 'cart world" where
  "updateCartViaApi ev req w =
     (case client_post ev ''/api/cart/update''
             [(''productId'', productId req), (''quantity'', numToString (quantity req))] [] w of
        (Inl e, w1) \<Rightarrow> (Inr False, w1)
      | (Inr response, w1) \<Rightarrow> (Inr (resStatus response = 200 \<and> resDataSuccess response), w1))"

text \<open>The selector of the item's form, a template literal that spans two lines.\<close>

definition itemFormSelector :: "string \<Rightarrow> string" where
  "itemFormSelector pid =
     ''[data-product-id=\"'' @ pid @ ''\"] form, '' @ [CHR 0x0A] @ replicate 25 (CHR '' '')
       @ ''form[data-product-id=\"'' @ pid @ ''\"]''"

definition updateCartViaForm :: "'cart env \<Rightarrow> UpdateCartItemRequest \<Rightarrow> 'cart world \<Rightarrow> (error + bool) \<times> 'cart world" where
  "updateCartViaForm ev req w0 =
     (let w = w0 \<lparr> formCalls := formCalls w0 + 1 \<rparr>
      in case client_get ev ''/kosik'' w of
           (Inl e, w1) \<Rightarrow> (Inr False, w1)
         | (Inr cartResponse, w1) \<Rightarrow>
             (case load ev (resData cartResponse) of
                None \<Rightarrow> (Inr False, w1)
              | Some doc \<Rightarrow>
                  (let itemForm = take 1 (doc (itemFormSelector (productId req)))
                   in if length itemForm = 0 then (Inr False, w1)
                      else
                        (let formAction = orStr (firstAttr itemForm ''action'') ''/kosik/upravit'';
                             formData = collectInputs (concat (map (\<lambda>f. elemFind f ''input'') itemForm));
                             formData1 = params_set ''quantity'' (numToString (quantity req)) formData
                         in case client_post ev formAction formData1 formHeaders w1 of
                              (Inl e, w2) \<Rightarrow> (Inr False, w2)
                            | (Inr response, w2) \<Rightarrow> (Inr (resStatus response < 400), w2)))))"

definition removeFromCartViaApi :: "'cart env \<Rightarrow> string \<Rightarrow> 'cart world \<Rightarrow> (error + bool) \<times> 'cart world" where
  "removeFromCartViaApi ev pid w =
     (case client_post ev ''/api/cart/remove'' [(''productId'', pid)] [] w of
        (Inl e, w1) \<Rightarrow> (Inr False, w1)
      | (Inr response, w1) \<Rightarrow> (Inr (resStatus response = 200 \<and> resDataSuccess response), w1))"

definition removeFromCartViaForm :: "'cart env \<Rightarrow> string \<Rightarrow> 'cart world \<Rightarrow> (error + bool) \<times> 'cart world" where
  "removeFromCartViaForm ev pid w0 =
     (let w = w0 \<lparr> formCalls := formCalls w0 + 1 \<rparr>
      in case updateCartViaForm ev \<lparr> productId = pid, quantity = 0 \<rparr> w of
           (Inl e, w1) \<Rightarrow> (Inr False, w1)
         | (Inr b, w1) \<Rightarrow> (Inr b, w1))"

text \<open>
  The end of every mutation: on success the cart cache is dropped and the cart
  is fetched again; otherwise the error with the given message is thrown.
\<close>

definition finishMutation ::
  "'cart env \<Rightarrow> string \<Rightarrow> (error + bool) \<times> 'cart world \<Rightarrow> (error + 'cart) \<times> 'cart world" where
  "finishMutation ev failure r =
     (case r of
        (Inl e, w) \<Rightarrow> (Inl e, w)
      | (Inr success, w) \<Rightarrow>
          if success then getCart ev (w \<lparr> cartCache := None \<rparr>)
          else (Inl (Error failure), w))"

text \<open>
  The three mutations.  The inner \<open>try\<close> calls the API step and its \<open>catch\<close> calls
  the form step; the outer \<open>catch\<close> logs and throws the error again.
\<close>

definition addToCart ::
  "'cart env \<Rightarrow> int \<Rightarrow> int \<Rightarrow> AddToCartRequest \<Rightarrow> 'cart world \<Rightarrow> (error + 'cart) \<times> 'cart world" where
  "addToCart ev tRead tStore req w =
     (if \<not> authenticated w
      then (Inl (Error ''User must be authenticated to add items to cart''), w)
      else
        (case getProduct ev tRead tStore (productId req) w of
           (None, w1) \<Rightarrow> (Inl (Error (''Product '' @ productId req @ '' not found'')), w1)
         | (Some product, w1) \<Rightarrow>
             finishMutation ev ''Failed to add product to cart''
               (case addToCartViaApi ev req w1 of
                  (Inr success, w2) \<Rightarrow> (Inr success, w2)
                | (Inl apiError, w2) \<Rightarrow> addToCartViaForm ev req w2)))"

definition removeFromCart :: "'cart env \<Rightarrow> string \<Rightarrow> 'cart world \<Rightarrow> (error + 'cart) \<times> 'cart world" where
  "removeFromCart ev pid w =
     (if \<not> authenticated w
      then (Inl (Error ''User must be authenticated to remove items from cart''), w)
      else
        finishMutation ev ''Failed to remove product from cart''
          (case removeFromCartViaApi ev pid w of
             (Inr success, w2) \<Rightarrow> (Inr success, w2)
           | (Inl apiError, w2) \<Rightarrow> removeFromCartViaForm ev pid w2))"

definition updateCartItem ::
  "'cart env \<Rightarrow> UpdateCartItemRequest \<Rightarrow> 'cart world \<Rightarrow> (error + 'cart) \<times> 'cart world" where
  "updateCartItem ev req w =
     (if \<not> authenticated w
      then (Inl (Error ''User must be authenticated to update cart''), w)
      else if quantity req = 0 then removeFromCart ev (productId req) w
      else
        finishMutation ev ''Failed to update cart item''
          (case updateCartViaApi ev req w of
             (Inr success, w2) \<Rightarrow> (Inr success, w2)
           | (Inl apiError, w2) \<Rightarrow> updateCartViaForm ev req w2))"

subsection \<open>The form steps, specified\<close>

text \<open>
  The fields of a form, said without the loop: the inputs that have a non-empty
  name and a non-empty value, each as the pair of the two, in document order.
\<close>

definition namedValue :: "element \<Rightarrow> (string \<times> string) option" where
  "namedValue input =
     (case (map_of (elemAttrs input) ''name'', map_of (elemAttrs input) ''value'') of
        (Some n, Some v) \<Rightarrow> if n \<noteq> [] \<and> v \<noteq> [] then Some (n, v) else None
      | _ \<Rightarrow> None)"

definition hiddenFields :: "element list \<Rightarrow> (string \<times> string) list" where
  "hiddenFields inputs = List.map_filter namedValue inputs"

text \<open>
  The request that submits the add-to-cart form of a page: to the action of the
  first matching form, or to \<open>/kosik/pridat\<close> when there is none, with the fields
  of that form and \<open>product_id\<close> and \<open>quantity\<close> set over them.
\<close>

definition addFormRequest :: "cheerioAPI \<Rightarrow> AddToCartRequest \<Rightarrow> httpRequest" where
  "addFormRequest doc req =
     (let form = take 1 (doc ''form[action*=\"cart\"], form[action*=\"kosik\"], .add-to-cart-form'')
      in \<lparr> reqMethod = ''POST'',
           reqUrl = orStr (firstAttr form ''action'') ''/kosik/pridat'',
           reqBody = params_set ''quantity'' (numToString (quantity req))
                       (params_set ''product_id'' (productId req)
                          (hiddenFields (concat (map (\<lambda>f. elemFind f ''input'') form)))),
           reqHeaders = formHeaders \<rparr>)"

text \<open>
  The request that submits the form of an item of the cart page: to the action
  of the form, or to \<open>/kosik/upravit\<close>, with its fields and \<open>quantity\<close> set over
  them.
\<close>

definition updateFormRequest :: "cheerioAPI \<Rightarrow> UpdateCartItemRequest \<Rightarrow> httpRequest" where
  "updateFormRequest doc req =
     (let itemForm = take 1 (doc (itemFormSelector (productId req)))
      in \<lparr> reqMethod = ''POST'',
           reqUrl = orStr (firstAttr itemForm ''action'') ''/kosik/upravit'',
           reqBody = params_set ''quantity'' (numToString (quantity req))
                       (hiddenFields (concat (map (\<lambda>f. elemFind f ''input'') itemForm))),
           reqHeaders = formHeaders \<rparr>)"

text \<open>
  An error of the kind the checkout, address and login steps throw when a page
  has no anti-forgery token: \<open>'Could not extract CSRF token from ... page'\<close>.
\<close>

definition isCsrfTokenMissing :: "error \<Rightarrow> bool" where
  "isCsrfTokenMissing e = startsWith (message e) ''Could not extract CSRF token''"

section \<open>Concrete documents, sessions and environments\<close>

text \<open>An element with text only.\<close>

definition leaf :: "string \<Rightarrow> element" where
  "leaf t = Element t [] (\<lambda>selector. [])"

text \<open>
  A product page with a price of \<open>57,90\<close> and a crossed price of \<open>88,90\<close>, and no
  element that any name selector matches.
\<close>

definition discountedPage :: cheerioAPI where
  "discountedPage selector =
     (if selector = ''.price'' then [leaf '' 57,90 Kc '']
      else if selector = ''.price-original'' then [leaf ''88,90 Kc'']
      else [])"

text \<open>A product page whose crossed price \<open>50\<close> is below its price \<open>100\<close>.\<close>

definition raisedPricePage :: cheerioAPI where
  "raisedPricePage selector =
     (if selector = ''.product-title'' then [leaf ''Rohlik'']
      else if selector = ''.price'' then [leaf ''100 Kc'']
      else if selector = ''.price-original'' then [leaf ''50 Kc'']
      else [])"

text \<open>
  A product page with a crossed price of \<open>10,00\<close> and a price of \<open>7,15\<close>: the
  exact percentage is \<open>28.5\<close>, the double product is \<open>28.499999999999996\<close>.
\<close>

definition roundingPage :: cheerioAPI where
  "roundingPage selector =
     (if selector = ''.product-title'' then [leaf ''Rohlik'']
      else if selector = ''.price'' then [leaf ''7,15 Kc'']
      else if selector = ''.price-original'' then [leaf ''10,00 Kc'']
      else [])"

text \<open>
  A product page with an add-to-cart form that has no \<open>_token\<close> field.  Its
  inputs are a hidden field, the product, the quantity, a field without a value
  and a button without a name.
\<close>

definition formInput :: "(string \<times> string) list \<Rightarrow> element" where
  "formInput attrs = Element [] attrs (\<lambda>selector. [])"

definition formPage :: cheerioAPI where
  "formPage selector =
     (if selector = ''form[action*=\"cart\"], form[action*=\"kosik\"], .add-to-cart-form''
      then [Element [] [(''action'', ''/kosik/pridat-polozku'')]
              (\<lambda>s. if s = ''input''
                    then [formInput [(''type'', ''hidden''), (''name'', ''source''), (''value'', ''detail'')],
                          formInput [(''name'', ''product_id''), (''value'', ''1440986'')],
                          formInput [(''name'', ''quantity''), (''value'', ''1'')],
                          formInput [(''name'', ''note''), (''value'', [])],
                          formInput [(''type'', ''submit''), (''value'', ''Do kosiku'')]]
                    else [])]
      else [])"

text \<open>
  A cart page with the form of one item, product \<open>1440986\<close>: its action is
  \<open>/kosik/zmenit\<close> and it has the fields \<open>item_id\<close> and \<open>quantity\<close>.
\<close>

definition cartPage :: cheerioAPI where
  "cartPage selector =
     (if selector = itemFormSelector ''1440986''
      then [Element [] [(''action'', ''/kosik/zmenit'')]
              (\<lambda>s. if s = ''input''
                    then [formInput [(''type'', ''hidden''), (''name'', ''item_id''), (''value'', ''77'')],
                          formInput [(''name'', ''quantity''), (''value'', ''1'')]]
                    else [])]
      else [])"

definition loadExample :: "string \<Rightarrow> cheerioAPI option" where
  "loadExample html =
     (if html = ''<discounted>'' then Some discountedPage
      else if html = ''<raised>'' then Some raisedPricePage
      else if html = ''<rounding>'' then Some roundingPage
      else if html = ''<form>'' then Some formPage
      else if html = ''<cart>'' then Some cartPage
      else Some (\<lambda>selector. []))"

text \<open>A card of a listing page with a price and no name.\<close>

definition namelessCard :: element where
  "namelessCard =
     Element [] [(''data-product-id'', ''1440986'')]
       (\<lambda>selector. if selector = ''.price, .product-price, [data-test=\"price\"]''
                    then [leaf ''57,90 Kc''] else [])"

text \<open>
  A session manager with a timeout of thirty minutes that holds one cookie, and
  the same after it was authenticated at time \<open>0\<close>.
\<close>

definition sessionWithCookie :: SessionManager where
  "sessionWithCookie =
     (SessionManager_new 30 0 0) \<lparr> cookieJar := [(''https://www.rohlik.cz/'', ''PHPSESSION=1'')] \<rparr>"

definition authenticatedSession :: SessionManager where
  "authenticatedSession = setAuthenticated 0 ''abcdef0123'' None None sessionWithCookie"

text \<open>
  A network that answers every request with status 200 and cannot resolve the
  URL \<open>//\<close>, and a client allowed two requests a minute.
\<close>

definition okResponse :: httpResponse where
  "okResponse = \<lparr> resStatus = 200, resData = ''<html>'', resDataSuccess = False, resSetCookie = [] \<rparr>"

definition exampleNetwork :: network where
  "exampleNetwork =
     \<lparr> adapter = (\<lambda>sent config. Inr okResponse),
       jarCookieString = (\<lambda>jar url. Inr []),
       jarSetCookie = (\<lambda>cookie url jar. Inr (jar @ [(url, cookie)])),
       resolveUrl = (\<lambda>url base. if url = ''//'' then Inl (Error ''Invalid URL'') else Inr (base @ url)) \<rparr>"

definition exampleClient :: RohlikClient where
  "exampleClient = RohlikClient_new ''https://www.rohlik.cz'' 2 30 0 0"

text \<open>The same client after two requests in the window that ends at \<open>60000\<close>.\<close>

definition exhaustedClient :: RohlikClient where
  "exhaustedClient =
     exampleClient \<lparr> rateLimiter := \<lparr> points = 2, duration = 60, storage = Some (2, 60000) \<rparr> \<rparr>"

definition getRequest :: "string \<Rightarrow> httpRequest" where
  "getRequest url = \<lparr> reqMethod = ''GET'', reqUrl = url, reqBody = [], reqHeaders = [] \<rparr>"

definition postRequest :: "string \<Rightarrow> (string \<times> string) list \<Rightarrow> (string \<times> string) list \<Rightarrow> httpRequest" where
  "postRequest url body headers = \<lparr> reqMethod = ''POST'', reqUrl = url, reqBody = body, reqHeaders = headers \<rparr>"

text \<open>The requests of the three API steps.\<close>

definition apiAddRequest :: "AddToCartRequest \<Rightarrow> httpRequest" where
  "apiAddRequest req =
     postRequest ''/api/cart/add'' [(''productId'', productId req), (''quantity'', numToString (quantity req))] []"

definition apiUpdateRequest :: "UpdateCartItemRequest \<Rightarrow> httpRequest" where
  "apiUpdateRequest req =
     postRequest ''/api/cart/update'' [(''productId'', productId req), (''quantity'', numToString (quantity req))] []"

definition apiRemoveRequest :: "string \<Rightarrow> httpRequest" where
  "apiRemoveRequest pid = postRequest ''/api/cart/remove'' [(''productId'', pid)] []"

definition isPost :: "httpRequest \<Rightarrow> bool" where
  "isPost r = (reqMethod r = ''POST'')"

text \<open>
  A shop that serves the product page, the form page and the cart page, and
  accepts the forms of the two.  Its API answers with \<open>success: true\<close> when \<open>apiUp\<close> holds and
  is unreachable otherwise.
\<close>

definition shopTransport :: "bool \<Rightarrow> httpRequest list \<Rightarrow> httpRequest \<Rightarrow> error + httpResponse" where
  "shopTransport apiUp sent config =
     (if reqMethod config = ''GET'' then
        (if reqUrl config = ''/1440986-''
           then Inr \<lparr> resStatus = 200, resData = ''<discounted>'', resDataSuccess = False, resSetCookie = [] \<rparr>
         else if reqUrl config = ''/1440986''
           then Inr \<lparr> resStatus = 200, resData = ''<form>'', resDataSuccess = False, resSetCookie = [] \<rparr>
         else if reqUrl config = ''/kosik''
           then Inr \<lparr> resStatus = 200, resData = ''<cart>'', resDataSuccess = False, resSetCookie = [] \<rparr>
         else Inl (Error ''Request failed with status code 404''))
      else if reqUrl config = ''/kosik/pridat-polozku'' \<or> reqUrl config = ''/kosik/zmenit''
        then Inr \<lparr> resStatus = 200, resData = ''<cart>'', resDataSuccess = False, resSetCookie = [] \<rparr>
      else if apiUp
        then Inr \<lparr> resStatus = 200, resData = ''{\"success\":true}'', resDataSuccess = True, resSetCookie = [] \<rparr>
      else Inl (Error ''Network Error''))"

definition shopEnv :: "bool \<Rightarrow> string env" where
  "shopEnv apiUp = \<lparr> transport = shopTransport apiUp, load = loadExample, parseCartFromHtml = (\<lambda>html. html) \<rparr>"

definition loggedIn :: "string world" where
  "loggedIn =
     \<lparr> authenticated = True, productCache = Map.empty, cartCache = None, netLog = [], formCalls = 0 \<rparr>"

definition twoOfProduct :: AddToCartRequest where
  "twoOfProduct = \<lparr> productId = ''1440986'', quantity = 2 \<rparr>"

section \<open>Price parsing: theorems\<close>

lemmas price_eval =
  HtmlParserService_parsePrice_def CartService_parsePrice_def normalizePrice_def keptByClean_def
  isDigit_def parseFloat_def unsignedLiteral_def splitSign_def isWhiteSpace_def digitsVal_def
  digitVal_def exponentPart_def

lemma takeWhile_no_match: "\<forall>c\<in>set xs. \<not> P c \<Longrightarrow> takeWhile P xs = []"
  by (cases xs) auto

lemma splitSign_subset: "set (snd (splitSign s)) \<subseteq> set s"
  by (auto simp: splitSign_def split: list.splits)

lemma parseFloat_no_digit:
  assumes "\<forall>c\<in>set t. \<not> isDigit c"
  shows "parseFloat t = None"
proof -
  obtain neg u where su: "splitSign (dropWhile isWhiteSpace t) = (neg, u)"
    by (cases "splitSign (dropWhile isWhiteSpace t)")
  have "set u \<subseteq> set (dropWhile isWhiteSpace t)"
    using splitSign_subset[of "dropWhile isWhiteSpace t"] su by simp
  also have "\<dots> \<subseteq> set t" by (rule set_dropWhileD[THEN subsetI])
  finally have u: "\<forall>c\<in>set u. \<not> isDigit c" using assms by blast
  have ip: "takeWhile isDigit u = []" using u by (rule takeWhile_no_match)
  have r1: "dropWhile isDigit u = u" using ip by (metis takeWhile_dropWhile_id append_Nil)
  have "\<forall>c\<in>set (tl u). \<not> isDigit c" using u by (cases u) auto
  then have fp: "takeWhile isDigit (tl u) = []" by (rule takeWhile_no_match)
  show ?thesis
    by (simp add: parseFloat_def unsignedLiteral_def su ip r1 fp Let_def)
qed

lemma replaceFirst_set: "set (replaceFirst a b s) \<subseteq> insert b (set s)"
  by (induction s) auto

lemma normalizePrice_no_digit:
  assumes "\<forall>c\<in>set s. \<not> isDigit c"
  shows "\<forall>c\<in>set (normalizePrice s). \<not> isDigit c"
proof -
  have "set (normalizePrice s) \<subseteq> insert (CHR ''.'') (set s)"
    using replaceFirst_set[of "CHR '',''" "CHR ''.''" "filter keptByClean s"]
    by (auto simp: normalizePrice_def)
  moreover have "\<not> isDigit (CHR ''.'')" by (simp add: isDigit_def)
  ultimately show ?thesis using assms by auto
qed

text \<open>
  Claim C5, as the code has it.  When no number can be read from the cleaned
  text (which is so for the empty text and for every text without a digit, such
  as \<open>abc\<close>), \<open>CartService.parsePrice\<close> yields \<open>0\<close> and
  \<open>HtmlParserService.parsePrice\<close> yields \<open>undefined\<close>.
\<close>

theorem parsePrice_unparsable:
  assumes "parseFloat (normalizePrice s) = None \<or> filter isDigit s = []"
  shows "CartService_parsePrice s = 0 \<and> HtmlParserService_parsePrice s = None"
proof -
  have "parseFloat (normalizePrice s) = None"
  proof (cases "parseFloat (normalizePrice s) = None")
    case True
    then show ?thesis .
  next
    case False
    with assms have "filter isDigit s = []" by simp
    then have "\<forall>c\<in>set s. \<not> isDigit c" by (simp add: filter_empty_conv)
    then show ?thesis using normalizePrice_no_digit parseFloat_no_digit by blast
  qed
  then show ?thesis
    by (simp add: CartService_parsePrice_def HtmlParserService_parsePrice_def)
qed

text \<open>Claim C5 at the empty text and at \<open>abc\<close>.\<close>

theorem parsePrice_unparsable_witness:
  "CartService_parsePrice ''abc'' = 0 \<and> HtmlParserService_parsePrice ''abc'' = None
   \<and> CartService_parsePrice [] = 0 \<and> HtmlParserService_parsePrice [] = None"
  using parsePrice_unparsable[of "''abc''"] parsePrice_unparsable[of "[]"]
  by (simp add: isDigit_def)

text \<open>
  Claim C5 as stated fails for the parser of the HTML service: for the empty
  text and for \<open>abc\<close> its result is not \<open>0\<close>.
\<close>

theorem HtmlParserService_parsePrice_counterexample:
  "HtmlParserService_parsePrice [] \<noteq> Some 0 \<and> HtmlParserService_parsePrice ''abc'' \<noteq> Some 0"
  by (simp add: HtmlParserService_parsePrice_def normalizePrice_def keptByClean_def isDigit_def
      parseFloat_def unsignedLiteral_def splitSign_def isWhiteSpace_def)

lemma replaceFirst_absent: "a \<notin> set s \<Longrightarrow> replaceFirst a b s = s"
  by (induction s) auto

lemma takeWhile_stop: "\<not> P z \<Longrightarrow> takeWhile P (m @ z # rest) = takeWhile P m"
  by (induction m) auto

lemma dropWhile_stop: "\<not> P z \<Longrightarrow> dropWhile P (m @ z # rest) = dropWhile P m @ z # rest"
  by (induction m) auto

lemma kept_no_space: "keptByClean c \<Longrightarrow> \<not> isWhiteSpace c"
  by (auto simp: keptByClean_def isDigit_def isWhiteSpace_def)

lemma exponentPart_kept: "r = [] \<or> keptByClean (hd r) \<Longrightarrow> exponentPart r = None"
  by (cases r) (auto simp: exponentPart_def keptByClean_def isDigit_def)

lemma splitSign_kept:
  assumes "pre \<noteq> []" and "keptByClean (hd pre)"
  shows "splitSign (pre @ t) = (fst (splitSign pre), snd (splitSign pre) @ t)"
  using assms by (cases pre) (auto simp: splitSign_def keptByClean_def isDigit_def)

text \<open>
  Once a dot has been read, the next character that is not a digit ends the
  literal: what follows it does not matter.
\<close>

lemma unsignedLiteral_cut:
  assumes dot: "CHR ''.'' \<in> set pre" and z: "\<not> isDigit z"
  shows "unsignedLiteral (pre @ z # rest) =
           (fst (unsignedLiteral pre), fst (snd (unsignedLiteral pre)),
            snd (snd (unsignedLiteral pre)) @ z # rest)"
proof -
  have nd: "\<not> isDigit (CHR ''.'')" by (simp add: isDigit_def)
  have t: "takeWhile isDigit (pre @ z # rest) = takeWhile isDigit pre"
    using dot nd by (rule takeWhile_append1)
  have d: "dropWhile isDigit (pre @ z # rest) = dropWhile isDigit pre @ z # rest"
    using dot nd by (rule dropWhile_append1)
  have ne: "dropWhile isDigit pre \<noteq> []"
    using dot nd by (auto simp: dropWhile_eq_Nil_conv)
  show ?thesis
    using ne z
    by (simp add: unsignedLiteral_def t d Let_def takeWhile_stop dropWhile_stop)
qed

lemma unsignedLiteral_rest_subset: "set (snd (snd (unsignedLiteral u))) \<subseteq> set u"
proof -
  have a: "set (dropWhile isDigit u) \<subseteq> set u" by (rule set_dropWhileD[THEN subsetI])
  have "set (dropWhile isDigit (tl (dropWhile isDigit u))) \<subseteq> set (tl (dropWhile isDigit u))"
    by (rule set_dropWhileD[THEN subsetI])
  also have "\<dots> \<subseteq> set (dropWhile isDigit u)"
  proof -
    have "set (tl xs) \<subseteq> set xs" for xs :: string by (cases xs) auto
    then show ?thesis .
  qed
  finally have b: "set (dropWhile isDigit (tl (dropWhile isDigit u))) \<subseteq> set u" using a by blast
  show ?thesis using a b by (simp add: unsignedLiteral_def Let_def)
qed

lemma parseFloat_cut:
  assumes kept: "\<forall>c\<in>set pre. keptByClean c" and dot: "CHR ''.'' \<in> set pre"
    and kz: "keptByClean z" and z: "\<not> isDigit z"
  shows "parseFloat (pre @ z # rest) = parseFloat pre"
proof -
  have ne: "pre \<noteq> []" using dot by auto
  then have hk: "keptByClean (hd pre)" using kept by (cases pre) auto
  then have hs: "\<not> isWhiteSpace (hd pre)" by (rule kept_no_space)
  have w1: "dropWhile isWhiteSpace (pre @ z # rest) = pre @ z # rest"
    using ne hs by (cases pre) auto
  have w2: "dropWhile isWhiteSpace pre = pre" using ne hs by (cases pre) auto
  obtain neg u where su: "splitSign pre = (neg, u)" by (cases "splitSign pre")
  have s1: "splitSign (pre @ z # rest) = (neg, u @ z # rest)"
    using splitSign_kept[OF ne hk, of "z # rest"] su by simp
  have usub: "set u \<subseteq> set pre" using splitSign_subset[of pre] su by simp
  have udot: "CHR ''.'' \<in> set u"
    using dot su ne by (cases pre) (auto simp: splitSign_def split: if_splits)
  obtain ip fp r2 where ul: "unsignedLiteral u = (ip, fp, r2)" by (cases "unsignedLiteral u") auto
  have ul1: "unsignedLiteral (u @ z # rest) = (ip, fp, r2 @ z # rest)"
    using unsignedLiteral_cut[OF udot z, of rest] ul by simp
  have "set r2 \<subseteq> set u" using unsignedLiteral_rest_subset[of u] ul by simp
  then have r2k: "\<forall>c\<in>set r2. keptByClean c" using usub kept by blast
  have e1: "exponentPart r2 = None"
    using r2k by (intro exponentPart_kept) (cases r2, auto)
  have e2: "exponentPart (r2 @ z # rest) = None"
    using r2k kz by (intro exponentPart_kept) (cases r2, auto)
  show ?thesis
    by (simp add: parseFloat_def w1 w2 su s1 ul ul1 e1 e2)
qed

lemma replaceFirst_split:
  "a \<notin> set u \<Longrightarrow> replaceFirst a b (u @ a # v) = u @ b # v"
  by (induction u) auto

lemma digit_not_comma: "isDigit c \<Longrightarrow> c \<noteq> CHR '',''"
  by (auto simp: isDigit_def)

lemma kept_dot: "keptByClean (CHR ''.'')"
  by (simp add: keptByClean_def)

lemma parseFloat_later_commas:
  assumes ku: "\<forall>c\<in>set u. keptByClean c" and kv: "\<forall>c\<in>set v. keptByClean c"
  shows "parseFloat (u @ CHR ''.'' # v) = parseFloat (u @ CHR ''.'' # commaToDot v)"
proof (cases "dropWhile isDigit v")
  case Nil
  then have "\<forall>c\<in>set v. isDigit c" by (simp add: dropWhile_eq_Nil_conv)
  then have "CHR '','' \<notin> set v" using digit_not_comma by blast
  then have "commaToDot v = v" unfolding commaToDot_def by (intro map_idI) auto
  then show ?thesis by simp
next
  case (Cons z rest)
  define d where "d = takeWhile isDigit v"
  let ?f = "\<lambda>c. if c = CHR '','' then CHR ''.'' else c"
  have v: "v = d @ z # rest"
    unfolding d_def using takeWhile_dropWhile_id[of isDigit v] Cons by simp
  have z: "\<not> isDigit z" using hd_dropWhile[of isDigit v] Cons by simp
  have kz: "keptByClean z" and kd: "\<forall>c\<in>set d. keptByClean c"
    using kv unfolding v by simp_all
  have "\<forall>c\<in>set d. isDigit c" unfolding d_def by (auto dest: set_takeWhileD)
  then have "CHR '','' \<notin> set d" using digit_not_comma by blast
  then have fd: "map ?f d = d" by (intro map_idI) auto
  have cv: "commaToDot v = d @ ?f z # map ?f rest"
    unfolding v commaToDot_def using fd by simp
  have kfz: "keptByClean (?f z)" using kz by (auto simp: keptByClean_def)
  have nfz: "\<not> isDigit (?f z)" using z by (simp add: isDigit_def)
  let ?pre = "u @ CHR ''.'' # d"
  have kpre: "\<forall>c\<in>set ?pre. keptByClean c"
    using ku kd kept_dot by auto
  have dot: "CHR ''.'' \<in> set ?pre" by simp
  have "parseFloat (u @ CHR ''.'' # v) = parseFloat (?pre @ z # rest)" unfolding v by simp
  also have "\<dots> = parseFloat ?pre" using kpre dot kz z by (rule parseFloat_cut)
  also have "\<dots> = parseFloat (?pre @ ?f z # map ?f rest)"
    using parseFloat_cut[OF kpre dot kfz nfz] by simp
  also have "\<dots> = parseFloat (u @ CHR ''.'' # commaToDot v)" unfolding cv by simp
  finally show ?thesis .
qed

lemma commaToDot_no_comma: "CHR '','' \<notin> set s \<Longrightarrow> commaToDot s = s"
  unfolding commaToDot_def by (induction s) auto

lemma parseFloat_normalizePrice_commaToDot:
  "parseFloat (normalizePrice (commaToDot s)) = parseFloat (normalizePrice s)"
proof -
  let ?f = "\<lambda>c. if c = CHR '','' then CHR ''.'' else c"
  let ?c = "filter keptByClean s"
  have k: "keptByClean (?f c) = keptByClean c" for c
    by (simp add: keptByClean_def isDigit_def)
  have fm: "filter keptByClean (map ?f s) = map ?f ?c"
  proof -
    have "keptByClean \<circ> ?f = keptByClean" using k by (simp add: fun_eq_iff)
    then show ?thesis by (simp add: filter_map)
  qed
  have "CHR '','' \<notin> set (map ?f ?c)" by auto
  then have l: "normalizePrice (commaToDot s) = commaToDot ?c"
    by (simp add: normalizePrice_def commaToDot_def fm replaceFirst_absent del: set_map)
  show ?thesis
  proof (cases "CHR '','' \<in> set ?c")
    case False
    have "normalizePrice s = ?c"
      unfolding normalizePrice_def using False by (rule replaceFirst_absent)
    moreover have "commaToDot ?c = ?c" using False by (rule commaToDot_no_comma)
    ultimately show ?thesis using l by simp
  next
    case True
    then obtain u v where c: "?c = u @ CHR '','' # v" and u: "CHR '','' \<notin> set u"
      using split_list_first[OF True] by blast
    have kc: "\<forall>x\<in>set ?c. keptByClean x" by simp
    have ku: "\<forall>x\<in>set u. keptByClean x" and kv: "\<forall>x\<in>set v. keptByClean x"
      using kc unfolding c by auto
    have r: "normalizePrice s = u @ CHR ''.'' # v"
      by (simp add: normalizePrice_def c replaceFirst_split[OF u])
    have "commaToDot ?c = commaToDot u @ CHR ''.'' # commaToDot v"
      unfolding c by (simp add: commaToDot_def)
    then have "commaToDot ?c = u @ CHR ''.'' # commaToDot v"
      using commaToDot_no_comma[OF u] by simp
    then show ?thesis
      using parseFloat_later_commas[OF ku kv] by (simp add: l r)
  qed
qed

text \<open>
  Claim C10.  A text written with a comma as decimal separator parses to the
  same value as the text with a dot in its place; so for both price parsers, and
  for every text, however many commas it has.
\<close>

theorem parsePrice_comma_dot:
  "HtmlParserService_parsePrice (commaToDot s) = HtmlParserService_parsePrice s
   \<and> CartService_parsePrice (commaToDot s) = CartService_parsePrice s"
proof -
  have "(commaToDot s = []) = (s = [])" by (simp add: commaToDot_def)
  then show ?thesis
    using parseFloat_normalizePrice_commaToDot[of s]
    by (simp add: HtmlParserService_parsePrice_def CartService_parsePrice_def)
qed


text \<open>Claim C10 at \<open>57,90\<close>: it parses as \<open>57.90\<close> does, to \<open>57.9\<close>.\<close>

theorem parsePrice_comma_dot_witness:
  "HtmlParserService_parsePrice ''57.90'' = HtmlParserService_parsePrice ''57,90''
   \<and> HtmlParserService_parsePrice ''57,90'' = Some (579 / 10)"
proof -
  have "HtmlParserService_parsePrice (commaToDot ''57,90'') = HtmlParserService_parsePrice ''57,90''"
    using parsePrice_comma_dot[of "''57,90''"] by simp
  moreover have "commaToDot ''57,90'' = ''57.90''" by (simp add: commaToDot_def)
  moreover have "HtmlParserService_parsePrice ''57,90'' = Some (579 / 10)"
    by (simp add: price_eval)
  ultimately show ?thesis by simp
qed

section \<open>HtmlParserService: theorems\<close>

lemma discountedPage_name: "extractProductName discountedPage = None"
  by (simp add: extractProductName_def discountedPage_def firstText_def selText_def trim_def)

lemma discountedPage_price: "extractPrice discountedPage = Some (579 / 10)"
  by (simp add: extractPrice_def discountedPage_def firstText_def selText_def trim_def leaf_def
      price_eval)

lemma discountedPage_originalPrice: "extractOriginalPrice discountedPage = Some (889 / 10)"
  by (simp add: extractOriginalPrice_def discountedPage_def firstText_def selText_def trim_def leaf_def
      price_eval)

lemma raisedPricePage_price: "extractPrice raisedPricePage = Some 100"
  by (simp add: extractPrice_def raisedPricePage_def firstText_def selText_def trim_def leaf_def
      price_eval)

lemma raisedPricePage_originalPrice: "extractOriginalPrice raisedPricePage = Some 50"
  by (simp add: extractOriginalPrice_def raisedPricePage_def firstText_def selText_def trim_def leaf_def
      price_eval)

text \<open>
  Claim C4 as stated fails for the product page: on a page where no name
  selector matches and the price is \<open>57,90\<close>, \<open>parseProductPage\<close> returns an
  entity, named \<open>Unknown Product\<close>, not \<open>null\<close>.
\<close>

theorem parseProductPage_nameless_counterexample:
  "extractProductName discountedPage = None
   \<and> loadExample ''<discounted>'' = Some discountedPage
   \<and> map_option pd_name (parseProductPage loadExample ''<discounted>'' ''1440986'') = Some ''Unknown Product''
   \<and> map_option pd_price (parseProductPage loadExample ''<discounted>'' ''1440986'') = Some (579 / 10)
   \<and> parseProductPage loadExample ''<discounted>'' ''1440986'' \<noteq> None"
  by (simp add: parseProductPage_def loadExample_def discountedPage_name discountedPage_price
      orStr_def orNum_def truthyNum_def Let_def)

text \<open>
  Claim C4, as the code has it.  \<open>parseProductPage\<close> returns \<open>null\<close> only when
  loading the document throws.  When no selector yields a name, it returns the
  entity with the name \<open>Unknown Product\<close> (and the price that was read, or
  \<open>0\<close>); \<open>parseProductCard\<close>, the parser of a card in a listing, returns
  \<open>null\<close>, whatever the price.
\<close>

theorem missing_name:
  "(parseProductPage loader html pid = None) = (loader html = None)
   \<and> (loader html = Some doc \<and> extractProductName doc = None \<longrightarrow>
      map_option pd_name (parseProductPage loader html pid) = Some ''Unknown Product''
      \<and> map_option pd_price (parseProductPage loader html pid) = Some (orNum (extractPrice doc) 0))
   \<and> (firstText (elemFind productCard ''.product-name, .productName, [data-test=\"product-name\"]'') = []
        \<longrightarrow> parseProductCard productCard pid = None)"
  by (simp add: parseProductPage_def parseProductCard_def orStr_def Let_def split: option.splits)

text \<open>Claim C4 on the page and on the card that have a price and no name.\<close>

theorem missing_name_witness:
  "map_option pd_name (parseProductPage loadExample ''<discounted>'' ''1440986'') = Some ''Unknown Product''
   \<and> map_option pd_price (parseProductPage loadExample ''<discounted>'' ''1440986'') = Some (579 / 10)
   \<and> parseProductCard namelessCard ''1440986'' = None"
proof -
  have l: "loadExample ''<discounted>'' = Some discountedPage" by (simp add: loadExample_def)
  have c: "firstText (elemFind namelessCard ''.product-name, .productName, [data-test=\"product-name\"]'') = []"
    by (simp add: namelessCard_def firstText_def selText_def trim_def)
  show ?thesis
    using missing_name[of loadExample "''<discounted>''" "''1440986''" discountedPage namelessCard]
      l c discountedPage_name discountedPage_price
    by (simp add: orNum_def truthyNum_def)
qed

lemma roundingPage_price: "extractPrice roundingPage = Some (715 / 100)"
  by (simp add: extractPrice_def roundingPage_def firstText_def selText_def trim_def leaf_def
      price_eval)

lemma roundingPage_originalPrice: "extractOriginalPrice roundingPage = Some 10"
  by (simp add: extractOriginalPrice_def roundingPage_def firstText_def selText_def trim_def leaf_def
      price_eval)

lemma discount_50_100: "calcDiscount (Some 50) (Some 100) = Some (Finite (- 100))"
  by code_simp

text \<open>
  Claim C6 as stated fails: on a page whose crossed price \<open>50\<close> is below its
  price \<open>100\<close> the discount is present, \<open>-100\<close>.
\<close>

theorem discount_counterexample:
  "map_option pd_originalPrice (parseProductPage loadExample ''<raised>'' ''1440986'') = Some (Some 50)
   \<and> map_option pd_price (parseProductPage loadExample ''<raised>'' ''1440986'') = Some 100
   \<and> map_option pd_discount (parseProductPage loadExample ''<raised>'' ''1440986'')
       = Some (Some (Finite (- 100)))"
  by (simp add: parseProductPage_def loadExample_def raisedPricePage_price
      raisedPricePage_originalPrice orNum_def truthyNum_def discount_50_100 Let_def)

text \<open>
  Claim C6, as the code has it.  The discount is computed exactly when both the
  crossed price and the price were read and neither is zero as a double;
  otherwise it is absent.  It is \<open>Math.round\<close> of the double that
  \<open>(originalPrice - price) / originalPrice * 100\<close> evaluates to, each operation
  rounded.
\<close>

theorem discount_computed:
  assumes "loader html = Some doc"
    and "extractOriginalPrice doc = originalPrice"
    and "extractPrice doc = price"
  shows "map_option pd_discount (parseProductPage loader html pid) =
     Some (case (originalPrice, price) of
             (Some op, Some p) \<Rightarrow>
               if toDouble op \<noteq> Finite 0 \<and> toDouble p \<noteq> Finite 0
               then Some (Math_round
                            (num_mul (num_div (num_sub (toDouble op) (toDouble p)) (toDouble op))
                               (Finite 100)))
               else None
           | _ \<Rightarrow> None)"
proof -
  have "toDouble x \<noteq> NaN" for x
    by (simp add: toDouble_def Let_def)
  then show ?thesis
    using assms
    by (auto simp: parseProductPage_def calcDiscount_def truthyDouble_def Let_def split: option.splits)
qed

text \<open>
  Claim C6 at a crossed price of \<open>88,90\<close> and a price of \<open>57,90\<close>: the discount is
  \<open>35\<close>.  At \<open>10,00\<close> and \<open>7,15\<close> it is \<open>28\<close>: the exact percentage is
  \<open>28.5\<close>, the double product lies just below it.
\<close>

theorem discount_computed_witness:
  "map_option pd_discount (parseProductPage loadExample ''<discounted>'' ''1440986'') = Some (Some (Finite 35))
   \<and> map_option pd_discount (parseProductPage loadExample ''<rounding>'' ''1440986'') = Some (Some (Finite 28))"
proof -
  have l1: "loadExample ''<discounted>'' = Some discountedPage"
    and l2: "loadExample ''<rounding>'' = Some roundingPage"
    by (simp_all add: loadExample_def)
  have t: "toDouble (889 / 10) \<noteq> Finite 0 \<and> toDouble (579 / 10) \<noteq> Finite 0
           \<and> toDouble 10 \<noteq> Finite 0 \<and> toDouble (715 / 100) \<noteq> Finite 0"
    by code_simp
  have v1: "Math_round (num_mul (num_div (num_sub (toDouble (889 / 10)) (toDouble (579 / 10)))
              (toDouble (889 / 10))) (Finite 100)) = Finite 35"
    by code_simp
  have v2: "Math_round (num_mul (num_div (num_sub (toDouble 10) (toDouble (715 / 100)))
              (toDouble 10)) (Finite 100)) = Finite 28"
    by code_simp
  have a: "map_option pd_discount (parseProductPage loadExample ''<discounted>'' ''1440986'')
        = Some (Some (Finite 35))"
    using discount_computed[of loadExample "''<discounted>''" discountedPage "Some (889 / 10)"
        "Some (579 / 10)" "''1440986''"] l1 discountedPage_originalPrice discountedPage_price t v1
    by simp
  have b: "map_option pd_discount (parseProductPage loadExample ''<rounding>'' ''1440986'')
        = Some (Some (Finite 28))"
    using discount_computed[of loadExample "''<rounding>''" roundingPage "Some 10"
        "Some (715 / 100)" "''1440986''"] l2 roundingPage_originalPrice roundingPage_price t v2
    by simp
  from a b show ?thesis by simp
qed

section \<open>SessionManager: theorems\<close>

text \<open>
  Claim C7.  \<open>isSessionValid\<close> returns \<open>isAuthenticated && now < expiresAt\<close>.  It
  clears the session (no identity, not authenticated, an empty cookie jar)
  exactly when the session is authenticated and the check fails, and leaves the
  manager as it is otherwise.  After \<open>setAuthenticated\<close> at \<open>t0\<close> and no update of
  the activity, the check at \<open>now\<close> fails and clears when \<open>now - t0\<close> has reached
  the timeout, and succeeds without a change before.
\<close>

theorem isSessionValid_spec:
  "fst (isSessionValid now tNew tNow sm) = (isAuthenticated (sessionData sm) \<and> now < expiresAt (sessionData sm))
   \<and> snd (isSessionValid now tNew tNow sm) =
       (if isAuthenticated (sessionData sm) \<and> \<not> now < expiresAt (sessionData sm)
        then clearSession tNew tNow sm else sm)
   \<and> \<not> isAuthenticated (sessionData (clearSession tNew tNow sm))
   \<and> sessionId (sessionData (clearSession tNew tNow sm)) = None
   \<and> userId (sessionData (clearSession tNew tNow sm)) = None
   \<and> email (sessionData (clearSession tNew tNow sm)) = None
   \<and> cookieJar (clearSession tNew tNow sm) = []
   \<and> (sessionTimeout sm \<le> now - t0 \<longrightarrow>
        isSessionValid now tNew tNow (setAuthenticated t0 sid uid mail sm)
          = (False, clearSession tNew tNow (setAuthenticated t0 sid uid mail sm)))
   \<and> (now - t0 < sessionTimeout sm \<longrightarrow>
        isSessionValid now tNew tNow (setAuthenticated t0 sid uid mail sm)
          = (True, setAuthenticated t0 sid uid mail sm))"
  by (simp add: isSessionValid_def clearSession_def setAuthenticated_def Let_def)

text \<open>Claim C7 for a timeout of thirty minutes, at the timeout and one millisecond before it.\<close>

theorem isSessionValid_spec_witness:
  "isSessionValid 1800000 1800001 1800002 authenticatedSession
     = (False, clearSession 1800001 1800002 authenticatedSession)
   \<and> cookieJar authenticatedSession \<noteq> []
   \<and> cookieJar (snd (isSessionValid 1800000 1800001 1800002 authenticatedSession)) = []
   \<and> isSessionValid 1799999 1800001 1800002 authenticatedSession = (True, authenticatedSession)"
proof -
  have t: "sessionTimeout sessionWithCookie = 1800000"
    by (simp add: sessionWithCookie_def SessionManager_new_def)
  have j: "cookieJar authenticatedSession \<noteq> []"
    by (simp add: authenticatedSession_def sessionWithCookie_def setAuthenticated_def)
  have late: "isSessionValid 1800000 1800001 1800002 authenticatedSession
     = (False, clearSession 1800001 1800002 authenticatedSession)"
    using isSessionValid_spec[of 1800000 1800001 1800002 sessionWithCookie 0 "''abcdef0123''" None None] t
    by (simp add: authenticatedSession_def)
  have early: "isSessionValid 1799999 1800001 1800002 authenticatedSession = (True, authenticatedSession)"
    using isSessionValid_spec[of 1799999 1800001 1800002 sessionWithCookie 0 "''abcdef0123''" None None] t
    by (simp add: authenticatedSession_def)
  have "cookieJar (clearSession 1800001 1800002 authenticatedSession) = []"
    by (simp add: clearSession_def)
  with late early j show ?thesis by simp
qed

text \<open>
  Claim C8 as stated fails on the boundary: with a timeout of \<open>1800000\<close> ms and
  \<open>360000\<close> ms left, exactly 20%, \<open>needsRenewal\<close> is false.
\<close>

theorem needsRenewal_counterexample:
  "isAuthenticated (sessionData authenticatedSession)
   \<and> sessionTimeout authenticatedSession = 1800000
   \<and> expiresAt (sessionData authenticatedSession) - 1440000 = 360000
   \<and> \<not> needsRenewal 1440000 authenticatedSession"
  by (simp add: authenticatedSession_def sessionWithCookie_def setAuthenticated_def SessionManager_new_def needsRenewal_def)

text \<open>
  Claim C8, as the code has it.  \<open>needsRenewal\<close> is true if and only if the
  session is authenticated and the time left is strictly less than 20% of the
  timeout (five times the time left is below the timeout).
\<close>

theorem needsRenewal_strict:
  "needsRenewal now sm =
     (isAuthenticated (sessionData sm) \<and> 5 * (expiresAt (sessionData sm) - now) < sessionTimeout sm)"
proof -
  have "(of_int x < (of_int y :: rat) * (2 / 10)) = (5 * x < y)" for x y :: int
  proof -
    have "(of_int x < (of_int y :: rat) * (2 / 10)) = ((of_int (5 * x) :: rat) < of_int y)"
      by (simp add: field_simps)
    also have "\<dots> = (5 * x < y)" by (simp only: of_int_less_iff)
    finally show ?thesis .
  qed
  then show ?thesis by (simp add: needsRenewal_def Let_def)
qed

section \<open>RohlikClient: theorems\<close>

lemma consume_in_window:
  assumes "storage rl = Some (v, e)" and "now < e"
  shows "consume now rl = (v + 1 \<le> points rl, rl \<lparr> storage := Some (v + 1, e) \<rparr>)"
  using assms by (simp add: consume_def)

lemma consume_new_window:
  assumes "case storage rl of None \<Rightarrow> True | Some (v, e) \<Rightarrow> e \<le> now"
  shows "consume now rl = (1 \<le> points rl, rl \<lparr> storage := Some (1, now + duration rl * 1000) \<rparr>)"
  using assms by (auto simp: consume_def split: option.splits)

lemma responseInterceptor_client:
  "responseInterceptor net config response c = (r, c3) \<Longrightarrow>
     rateLimiter c3 = rateLimiter c \<and> baseURL c3 = baseURL c"
  by (auto simp: responseInterceptor_def split: sum.splits if_splits)

text \<open>
  What the request interceptor does once the limiter has answered: it rejects,
  or it hands on the request with its URL unchanged.
\<close>

lemma requestInterceptor_effect:
  assumes "consume t (rateLimiter c) = (granted, rl)"
  shows "rateLimiter (snd (requestInterceptor net t tAct config c)) = rl"
    and "baseURL (snd (requestInterceptor net t tAct config c)) = baseURL c"
    and "isl (fst (requestInterceptor net t tAct config c))
           = (\<not> (granted \<and> resolvable net (baseURL c) config))"
    and "fst (requestInterceptor net t tAct config c) = Inr config1 \<Longrightarrow> reqUrl config1 = reqUrl config"
    and "\<not> granted \<Longrightarrow> requestInterceptor net t tAct config c
           = (Inl (Error ''Rate limit exceeded''), c \<lparr> rateLimiter := rl \<rparr>)"
  using assms
  by (auto simp: requestInterceptor_def resolvable_def Let_def split: sum.splits if_splits)

text \<open>What one request does to the limiter and to the list of requests sent.\<close>

lemma request_effect:
  assumes "consume t (rateLimiter c) = (granted, rl)"
  shows "rateLimiter (fst (snd (request net t tAct config (c, sent)))) = rl"
    and "baseURL (fst (snd (request net t tAct config (c, sent)))) = baseURL c"
    and "map reqUrl (snd (snd (request net t tAct config (c, sent))))
           = map reqUrl sent @ (if granted \<and> resolvable net (baseURL c) config then [reqUrl config] else [])"
    and "\<not> granted \<Longrightarrow> request net t tAct config (c, sent)
           = (Inl (Error ''Rate limit exceeded''), (c \<lparr> rateLimiter := rl \<rparr>, sent))"
proof -
  obtain r c1 where ri: "requestInterceptor net t tAct config c = (r, c1)"
    by (cases "requestInterceptor net t tAct config c")
  have c1: "rateLimiter c1 = rl" "baseURL c1 = baseURL c"
    using requestInterceptor_effect(1,2)[OF assms, of net tAct config] ri by simp_all
  have isl: "isl r = (\<not> (granted \<and> resolvable net (baseURL c) config))"
    using requestInterceptor_effect(3)[OF assms, of net tAct config] ri by simp
  have url: "r = Inr config1 \<Longrightarrow> reqUrl config1 = reqUrl config" for config1
    using requestInterceptor_effect(4)[OF assms, of net tAct config config1] ri by simp
  show "rateLimiter (fst (snd (request net t tAct config (c, sent)))) = rl"
    using c1
    by (cases r) (auto simp: request_def ri split: sum.splits prod.splits
        dest: responseInterceptor_client)
  show "baseURL (fst (snd (request net t tAct config (c, sent)))) = baseURL c"
    using c1
    by (cases r) (auto simp: request_def ri split: sum.splits prod.splits
        dest: responseInterceptor_client)
  show "map reqUrl (snd (snd (request net t tAct config (c, sent))))
           = map reqUrl sent @ (if granted \<and> resolvable net (baseURL c) config then [reqUrl config] else [])"
    using isl url
    by (cases r) (auto simp: request_def ri split: sum.splits prod.splits)
  show "\<not> granted \<Longrightarrow> request net t tAct config (c, sent)
           = (Inl (Error ''Rate limit exceeded''), (c \<lparr> rateLimiter := rl \<rparr>, sent))"
    using requestInterceptor_effect(5)[OF assms, of net tAct config]
    by (simp add: request_def)
qed

text \<open>
  Inside a window: the next \<open>points - v\<close> requests take the units that are left,
  and those of them that can be resolved are handed to the network.
\<close>

lemma requests_in_window:
  assumes "storage (rateLimiter c) = Some (v, e)"
    and "\<forall>t\<in>set (map fst reqs). t < e"
  shows "map reqUrl (snd (requests net reqs (c, sent)))
         = map reqUrl sent
           @ map reqUrl (filter (resolvable net (baseURL c))
                           (map snd (take (nat (points (rateLimiter c) - v)) reqs)))"
  using assms
proof (induction reqs arbitrary: c sent v)
  case Nil
  then show ?case by simp
next
  case (Cons tr reqs)
  obtain t config where tr: "tr = (t, config)" by (cases tr)
  let ?st = "request net t t config (c, sent)"
  let ?c1 = "fst (snd ?st)" and ?sent1 = "snd (snd ?st)"
  let ?g = "v + 1 \<le> points (rateLimiter c)"
  have t: "t < e" using Cons.prems(2) tr by simp
  have cons: "consume t (rateLimiter c)
      = (?g, (rateLimiter c) \<lparr> storage := Some (v + 1, e) \<rparr>)"
    using Cons.prems(1) t by (rule consume_in_window)
  have rl: "rateLimiter ?c1 = (rateLimiter c) \<lparr> storage := Some (v + 1, e) \<rparr>"
    using request_effect(1)[OF cons] .
  have base: "baseURL ?c1 = baseURL c" using request_effect(2)[OF cons] .
  have urls: "map reqUrl ?sent1
      = map reqUrl sent @ (if ?g \<and> resolvable net (baseURL c) config then [reqUrl config] else [])"
    using request_effect(3)[OF cons] .
  have st1: "storage (rateLimiter ?c1) = Some (v + 1, e)" by (simp add: rl)
  have pts: "points (rateLimiter ?c1) = points (rateLimiter c)" by (simp add: rl)
  have rest: "\<forall>t\<in>set (map fst reqs). t < e" using Cons.prems(2) by simp
  have ih: "map reqUrl (snd (requests net reqs (?c1, ?sent1)))
        = map reqUrl ?sent1
          @ map reqUrl (filter (resolvable net (baseURL c))
                          (map snd (take (nat (points (rateLimiter c) - (v + 1))) reqs)))"
    using Cons.IH[OF st1 rest, of ?sent1] by (simp add: pts base)
  have step: "requests net (tr # reqs) (c, sent) = requests net reqs (?c1, ?sent1)"
    by (simp add: tr)
  show ?case
  proof (cases ?g)
    case True
    then have "nat (points (rateLimiter c) - v) = Suc (nat (points (rateLimiter c) - (v + 1)))"
      by simp
    then show ?thesis unfolding step ih urls using True by (simp add: tr)
  next
    case False
    then have "nat (points (rateLimiter c) - v) = 0" "nat (points (rateLimiter c) - (v + 1)) = 0"
      by simp_all
    then show ?thesis unfolding step ih urls using False by simp
  qed
qed

lemma requests_from_window_start:
  assumes fresh: "case storage (rateLimiter c) of None \<Rightarrow> True | Some (v, e) \<Rightarrow> e \<le> t0"
    and inside: "\<forall>t\<in>set (map fst rest). t < t0 + duration (rateLimiter c) * 1000"
  shows "map reqUrl (snd (requests net ((t0, config) # rest) (c, sent)))
         = map reqUrl sent
           @ map reqUrl (filter (resolvable net (baseURL c))
                           (map snd (take (nat (points (rateLimiter c))) ((t0, config) # rest))))"
proof -
  let ?st = "request net t0 t0 config (c, sent)"
  let ?c1 = "fst (snd ?st)" and ?sent1 = "snd (snd ?st)"
  let ?e = "t0 + duration (rateLimiter c) * 1000"
  let ?g = "1 \<le> points (rateLimiter c)"
  have cons: "consume t0 (rateLimiter c)
      = (?g, (rateLimiter c) \<lparr> storage := Some (1, ?e) \<rparr>)"
    using fresh by (rule consume_new_window)
  have rl: "rateLimiter ?c1 = (rateLimiter c) \<lparr> storage := Some (1, ?e) \<rparr>"
    using request_effect(1)[OF cons] .
  have base: "baseURL ?c1 = baseURL c" using request_effect(2)[OF cons] .
  have urls: "map reqUrl ?sent1
      = map reqUrl sent @ (if ?g \<and> resolvable net (baseURL c) config then [reqUrl config] else [])"
    using request_effect(3)[OF cons] .
  have st1: "storage (rateLimiter ?c1) = Some (1, ?e)" by (simp add: rl)
  have pts1: "points (rateLimiter ?c1) = points (rateLimiter c)" by (simp add: rl)
  have ih: "map reqUrl (snd (requests net rest (?c1, ?sent1)))
        = map reqUrl ?sent1
          @ map reqUrl (filter (resolvable net (baseURL c))
                          (map snd (take (nat (points (rateLimiter c) - 1)) rest)))"
    using requests_in_window[OF st1 inside, of net ?sent1] by (simp add: pts1 base)
  have step: "requests net ((t0, config) # rest) (c, sent) = requests net rest (?c1, ?sent1)"
    by simp
  show ?thesis
  proof (cases ?g)
    case True
    then have "nat (points (rateLimiter c)) = Suc (nat (points (rateLimiter c) - 1))" by simp
    then show ?thesis unfolding step ih urls using True by simp
  next
    case False
    then have "nat (points (rateLimiter c)) = 0" "nat (points (rateLimiter c) - 1) = 0" by simp_all
    then show ?thesis unfolding step ih urls using False by simp
  qed
qed

text \<open>
  Claim C9.  A request made while the window is open and its \<open>points\<close> units are
  used up is rejected at once with the error \<open>Rate limit exceeded\<close>: nothing is
  handed to the network and the session is not touched.  Of the requests made
  from the opening of a window of 60 seconds to its end, only the first
  \<open>points\<close> get a unit; those of them whose URL can be resolved are handed to the
  network, in their order, and no other request is: at most \<open>points\<close> requests
  in the window.
\<close>

theorem rate_limit:
  "(storage (rateLimiter c) = Some (v, e) \<and> now < e \<and> points (rateLimiter c) \<le> v \<longrightarrow>
      fst (request net now tAct config (c, sent)) = Inl (Error ''Rate limit exceeded'')
      \<and> snd (snd (request net now tAct config (c, sent))) = sent
      \<and> sessionManager (fst (snd (request net now tAct config (c, sent)))) = sessionManager c)
   \<and> ((case storage (rateLimiter c) of None \<Rightarrow> True | Some (v, e) \<Rightarrow> e \<le> t0)
        \<and> duration (rateLimiter c) = 60
        \<and> (\<forall>t\<in>set (map fst rest). t < t0 + 60000) \<longrightarrow>
      map reqUrl (snd (requests net ((t0, config) # rest) (c, sent)))
        = map reqUrl sent
          @ map reqUrl (filter (resolvable net (baseURL c))
                          (map snd (take (nat (points (rateLimiter c))) ((t0, config) # rest))))
      \<and> length (snd (requests net ((t0, config) # rest) (c, sent)))
          \<le> length sent + min (length ((t0, config) # rest)) (nat (points (rateLimiter c))))"
proof (intro conjI impI)
  assume a: "storage (rateLimiter c) = Some (v, e) \<and> now < e \<and> points (rateLimiter c) \<le> v"
  then have cons: "consume now (rateLimiter c)
      = (v + 1 \<le> points (rateLimiter c), (rateLimiter c) \<lparr> storage := Some (v + 1, e) \<rparr>)"
    by (simp add: consume_in_window)
  have ng: "\<not> v + 1 \<le> points (rateLimiter c)" using a by simp
  have r: "request net now tAct config (c, sent)
           = (Inl (Error ''Rate limit exceeded''),
              (c \<lparr> rateLimiter := (rateLimiter c) \<lparr> storage := Some (v + 1, e) \<rparr> \<rparr>, sent))"
    using request_effect(4)[OF cons ng] .
  show "fst (request net now tAct config (c, sent)) = Inl (Error ''Rate limit exceeded'')"
    by (simp add: r)
  show "snd (snd (request net now tAct config (c, sent))) = sent" by (simp add: r)
  show "sessionManager (fst (snd (request net now tAct config (c, sent)))) = sessionManager c"
    by (simp add: r)
next
  assume b: "(case storage (rateLimiter c) of None \<Rightarrow> True | Some (v, e) \<Rightarrow> e \<le> t0)
        \<and> duration (rateLimiter c) = 60
        \<and> (\<forall>t\<in>set (map fst rest). t < t0 + 60000)"
  then have inside: "\<forall>t\<in>set (map fst rest). t < t0 + duration (rateLimiter c) * 1000" by simp
  have fresh: "case storage (rateLimiter c) of None \<Rightarrow> True | Some (v, e) \<Rightarrow> e \<le> t0"
    using b by blast
  show m: "map reqUrl (snd (requests net ((t0, config) # rest) (c, sent)))
        = map reqUrl sent
          @ map reqUrl (filter (resolvable net (baseURL c))
                          (map snd (take (nat (points (rateLimiter c))) ((t0, config) # rest))))"
    using fresh inside by (rule requests_from_window_start)
  have "length (snd (requests net ((t0, config) # rest) (c, sent)))
        = length (map reqUrl (snd (requests net ((t0, config) # rest) (c, sent))))" by simp
  also have "\<dots> = length sent
      + length (filter (resolvable net (baseURL c))
                  (map snd (take (nat (points (rateLimiter c))) ((t0, config) # rest))))"
    by (simp only: m length_append length_map)
  also have "\<dots> \<le> length sent + length (take (nat (points (rateLimiter c))) ((t0, config) # rest))"
    using length_filter_le[of "resolvable net (baseURL c)"
        "map snd (take (nat (points (rateLimiter c))) ((t0, config) # rest))"]
    by (simp only: length_map add_le_cancel_left)
  finally show "length (snd (requests net ((t0, config) # rest) (c, sent)))
          \<le> length sent + min (length ((t0, config) # rest)) (nat (points (rateLimiter c)))"
    by (simp only: length_take)
qed

text \<open>
  Claim C9 for a client with two requests a minute: of three requests in one
  window the first two are sent and the third is rejected; when the first has a
  URL that cannot be resolved, it takes a unit and only the second is sent.
\<close>

theorem rate_limit_witness:
  "map reqUrl (snd (requests exampleNetwork
       [(0, getRequest ''/''), (10, getRequest ''/a''), (59999, getRequest ''/b'')] (exampleClient, [])))
     = [''/'', ''/a'']
   \<and> map reqUrl (snd (requests exampleNetwork
       [(0, getRequest ''//''), (10, getRequest ''/a''), (59999, getRequest ''/b'')] (exampleClient, [])))
     = [''/a'']
   \<and> fst (request exampleNetwork 59999 59999 (getRequest ''/b'')
            (exhaustedClient, [getRequest ''/'', getRequest ''/a''])) = Inl (Error ''Rate limit exceeded'')
   \<and> snd (snd (request exampleNetwork 59999 59999 (getRequest ''/b'')
            (exhaustedClient, [getRequest ''/'', getRequest ''/a''])))
       = [getRequest ''/'', getRequest ''/a'']"
proof -
  have ex: "storage (rateLimiter exhaustedClient) = Some (2, 60000) \<and> (59999::int) < 60000
            \<and> points (rateLimiter exhaustedClient) \<le> 2"
    by (simp add: exhaustedClient_def)
  have fr: "(case storage (rateLimiter exampleClient) of None \<Rightarrow> True | Some (v, e) \<Rightarrow> e \<le> 0)
        \<and> duration (rateLimiter exampleClient) = 60
        \<and> (\<forall>t\<in>set (map fst [(10, getRequest ''/a''), (59999, getRequest ''/b'')]). t < (0::int) + 60000)"
    by (simp add: exampleClient_def RohlikClient_new_def)
  have p: "nat (points (rateLimiter exampleClient)) = 2"
    by (simp add: exampleClient_def RohlikClient_new_def)
  have res: "resolvable exampleNetwork (baseURL exampleClient) (getRequest url) = (url \<noteq> ''//'')" for url
    by (simp add: resolvable_def exampleNetwork_def getRequest_def)
  have a: "fst (request exampleNetwork 59999 59999 (getRequest ''/b'')
            (exhaustedClient, [getRequest ''/'', getRequest ''/a''])) = Inl (Error ''Rate limit exceeded'')
      \<and> snd (snd (request exampleNetwork 59999 59999 (getRequest ''/b'')
            (exhaustedClient, [getRequest ''/'', getRequest ''/a''])))
       = [getRequest ''/'', getRequest ''/a'']"
    using rate_limit[of exhaustedClient 2 60000 59999 exampleNetwork 59999 "getRequest ''/b''"
        "[getRequest ''/'', getRequest ''/a'']", THEN conjunct1] ex
    by blast
  have b: "map reqUrl (snd (requests exampleNetwork
       [(0, getRequest ''/''), (10, getRequest ''/a''), (59999, getRequest ''/b'')] (exampleClient, [])))
     = map reqUrl ([]::httpRequest list)
       @ map reqUrl (filter (resolvable exampleNetwork (baseURL exampleClient))
           (map snd (take (nat (points (rateLimiter exampleClient)))
              [(0::int, getRequest ''/''), (10, getRequest ''/a''), (59999, getRequest ''/b'')])))"
    by (rule rate_limit[of exampleClient 0 0 0 exampleNetwork 0 "getRequest ''/''" "[]" 0
        "[(10, getRequest ''/a''), (59999, getRequest ''/b'')]",
        THEN conjunct2, THEN mp, OF fr, THEN conjunct1])
  have c: "map reqUrl (snd (requests exampleNetwork
       [(0, getRequest ''//''), (10, getRequest ''/a''), (59999, getRequest ''/b'')] (exampleClient, [])))
     = map reqUrl ([]::httpRequest list)
       @ map reqUrl (filter (resolvable exampleNetwork (baseURL exampleClient))
           (map snd (take (nat (points (rateLimiter exampleClient)))
              [(0::int, getRequest ''//''), (10, getRequest ''/a''), (59999, getRequest ''/b'')])))"
    by (rule rate_limit[of exampleClient 0 0 0 exampleNetwork 0 "getRequest ''//''" "[]" 0
        "[(10, getRequest ''/a''), (59999, getRequest ''/b'')]",
        THEN conjunct2, THEN mp, OF fr, THEN conjunct1])
  have u: "reqUrl (getRequest url) = url" for url by (simp add: getRequest_def)
  from a b c show ?thesis
    by (simp add: p res u numeral_2_eq_2 del: requests.simps)
qed

section \<open>CartService: theorems\<close>

lemma addToCartViaApi_eq:
  "addToCartViaApi ev req w =
     (Inr (case transport ev (netLog w) (apiAddRequest req) of
             Inl e \<Rightarrow> False
           | Inr response \<Rightarrow> resStatus response = 200 \<and> resDataSuccess response),
      w \<lparr> netLog := netLog w @ [apiAddRequest req] \<rparr>)"
  by (simp add: addToCartViaApi_def client_post_def apiAddRequest_def postRequest_def Let_def
      split: sum.splits)

lemma updateCartViaApi_eq:
  "updateCartViaApi ev req w =
     (Inr (case transport ev (netLog w) (apiUpdateRequest req) of
             Inl e \<Rightarrow> False
           | Inr response \<Rightarrow> resStatus response = 200 \<and> resDataSuccess response),
      w \<lparr> netLog := netLog w @ [apiUpdateRequest req] \<rparr>)"
  by (simp add: updateCartViaApi_def client_post_def apiUpdateRequest_def postRequest_def Let_def
      split: sum.splits)

lemma removeFromCartViaApi_eq:
  "removeFromCartViaApi ev pid w =
     (Inr (case transport ev (netLog w) (apiRemoveRequest pid) of
             Inl e \<Rightarrow> False
           | Inr response \<Rightarrow> resStatus response = 200 \<and> resDataSuccess response),
      w \<lparr> netLog := netLog w @ [apiRemoveRequest pid] \<rparr>)"
  by (simp add: removeFromCartViaApi_def client_post_def apiRemoveRequest_def postRequest_def Let_def
      split: sum.splits)

lemma getCart_netLog:
  "authenticated w \<Longrightarrow> netLog (snd (getCart ev w)) = netLog w @ [getRequest ''/kosik'']"
  by (simp add: getCart_def client_get_def getRequest_def Let_def split: sum.splits)

lemma getCart_formCalls: "formCalls (snd (getCart ev w)) = formCalls w"
  by (simp add: getCart_def client_get_def Let_def split: sum.splits)

lemma getCachedProduct_world:
  "netLog (snd (getCachedProduct now pid w)) = netLog w
   \<and> authenticated (snd (getCachedProduct now pid w)) = authenticated w
   \<and> formCalls (snd (getCachedProduct now pid w)) = formCalls w"
  by (simp add: getCachedProduct_def split: option.splits prod.splits)

lemma getProduct_world:
  "filter isPost (netLog (snd (getProduct ev tRead tStore pid w))) = filter isPost (netLog w)
   \<and> authenticated (snd (getProduct ev tRead tStore pid w)) = authenticated w
   \<and> formCalls (snd (getProduct ev tRead tStore pid w)) = formCalls w"
proof -
  obtain r w1 where c: "getCachedProduct tRead pid w = (r, w1)"
    by (cases "getCachedProduct tRead pid w")
  have w1: "netLog w1 = netLog w \<and> authenticated w1 = authenticated w \<and> formCalls w1 = formCalls w"
    using getCachedProduct_world[of tRead pid w] c by simp
  show ?thesis
    using w1
    by (simp add: getProduct_def c client_get_def cacheProduct_def isPost_def Let_def
        split: option.splits sum.splits)
qed

text \<open>The mutations after the API step, when it reports success and when it does not.\<close>

lemma finishMutation_success:
  "authenticated w \<Longrightarrow>
   netLog (snd (finishMutation ev failure (Inr True, w))) = netLog w @ [getRequest ''/kosik'']
   \<and> formCalls (snd (finishMutation ev failure (Inr True, w))) = formCalls w"
  by (simp add: finishMutation_def getCart_netLog getCart_formCalls)

lemma finishMutation_failure:
  "finishMutation ev failure (Inr False, w) = (Inl (Error failure), w)"
  by (simp add: finishMutation_def)

lemma addToCart_after_lookup:
  assumes "authenticated w"
    and "getProduct ev tRead tStore (productId req) w = (Some product, w1)"
  shows "addToCart ev tRead tStore req w =
     finishMutation ev ''Failed to add product to cart''
       (Inr (case transport ev (netLog w1) (apiAddRequest req) of
               Inl e \<Rightarrow> False
             | Inr response \<Rightarrow> resStatus response = 200 \<and> resDataSuccess response),
        w1 \<lparr> netLog := netLog w1 @ [apiAddRequest req] \<rparr>)"
  using assms by (simp add: addToCart_def addToCartViaApi_eq)

lemma removeFromCart_eq:
  assumes "authenticated w"
  shows "removeFromCart ev pid w =
     finishMutation ev ''Failed to remove product from cart''
       (Inr (case transport ev (netLog w) (apiRemoveRequest pid) of
               Inl e \<Rightarrow> False
             | Inr response \<Rightarrow> resStatus response = 200 \<and> resDataSuccess response),
        w \<lparr> netLog := netLog w @ [apiRemoveRequest pid] \<rparr>)"
  using assms by (simp add: removeFromCart_def removeFromCartViaApi_eq)

lemma updateCartItem_eq:
  assumes "authenticated w" and "quantity req \<noteq> 0"
  shows "updateCartItem ev req w =
     finishMutation ev ''Failed to update cart item''
       (Inr (case transport ev (netLog w) (apiUpdateRequest req) of
               Inl e \<Rightarrow> False
             | Inr response \<Rightarrow> resStatus response = 200 \<and> resDataSuccess response),
        w \<lparr> netLog := netLog w @ [apiUpdateRequest req] \<rparr>)"
  using assms by (simp add: updateCartItem_def updateCartViaApi_eq)

text \<open>
  Whatever the API call does short of reporting success, the mutation fails
  with its own message and the form step makes no request.
\<close>

lemma api_failure_skips_form:
  assumes "authenticated w"
    and "getProduct ev tRead tStore (productId req) w = (Some product, w1)"
    and "\<not> (case transport ev (netLog w1) (apiAddRequest req) of
               Inl e \<Rightarrow> False
             | Inr response \<Rightarrow> resStatus response = 200 \<and> resDataSuccess response)"
  shows "addToCart ev tRead tStore req w =
           (Inl (Error ''Failed to add product to cart''),
            w1 \<lparr> netLog := netLog w1 @ [apiAddRequest req] \<rparr>)"
  using assms by (simp add: addToCart_after_lookup finishMutation_failure)

text \<open>
  Claim C2.  When the API call of a mutation answers with status 200 and
  \<open>success: true\<close>, no form step is called, and the mutation makes one \<open>POST\<close>
  request, the API call, followed by the reading of the cart page.  So for
  adding (after the product lookup, which only reads), for updating with a
  quantity other than zero, for removing, and for updating with quantity zero,
  which removes.
\<close>

theorem api_success_single_post:
  "(authenticated w \<and> getProduct ev tRead tStore (productId req) w = (Some product, w1)
      \<and> transport ev (netLog w1) (apiAddRequest req) = Inr response
      \<and> resStatus response = 200 \<and> resDataSuccess response \<longrightarrow>
        formCalls (snd (addToCart ev tRead tStore req w)) = formCalls w
        \<and> netLog (snd (addToCart ev tRead tStore req w))
          = netLog w1 @ [apiAddRequest req, getRequest ''/kosik'']
        \<and> filter isPost (netLog (snd (addToCart ev tRead tStore req w)))
          = filter isPost (netLog w) @ [apiAddRequest req])
   \<and> (authenticated w \<and> quantity req \<noteq> 0
      \<and> transport ev (netLog w) (apiUpdateRequest req) = Inr response
      \<and> resStatus response = 200 \<and> resDataSuccess response \<longrightarrow>
        formCalls (snd (updateCartItem ev req w)) = formCalls w
        \<and> netLog (snd (updateCartItem ev req w))
          = netLog w @ [apiUpdateRequest req, getRequest ''/kosik''])
   \<and> (authenticated w
      \<and> transport ev (netLog w) (apiRemoveRequest pid) = Inr response
      \<and> resStatus response = 200 \<and> resDataSuccess response \<longrightarrow>
        formCalls (snd (removeFromCart ev pid w)) = formCalls w
        \<and> netLog (snd (removeFromCart ev pid w))
          = netLog w @ [apiRemoveRequest pid, getRequest ''/kosik''])
   \<and> (authenticated w \<and> quantity req = 0
      \<and> transport ev (netLog w) (apiRemoveRequest (productId req)) = Inr response
      \<and> resStatus response = 200 \<and> resDataSuccess response \<longrightarrow>
        formCalls (snd (updateCartItem ev req w)) = formCalls w
        \<and> netLog (snd (updateCartItem ev req w))
          = netLog w @ [apiRemoveRequest (productId req), getRequest ''/kosik''])"
proof (intro conjI impI)
  assume a: "authenticated w \<and> getProduct ev tRead tStore (productId req) w = (Some product, w1)
      \<and> transport ev (netLog w1) (apiAddRequest req) = Inr response
      \<and> resStatus response = 200 \<and> resDataSuccess response"
  have w1: "authenticated w1 \<and> filter isPost (netLog w1) = filter isPost (netLog w)
            \<and> formCalls w1 = formCalls w"
    using getProduct_world[of ev tRead tStore "productId req" w] a by simp
  have e: "addToCart ev tRead tStore req w =
      finishMutation ev ''Failed to add product to cart''
        (Inr True, w1 \<lparr> netLog := netLog w1 @ [apiAddRequest req] \<rparr>)"
    using a addToCart_after_lookup[of w ev tRead tStore req product w1] by simp
  have l: "netLog (snd (addToCart ev tRead tStore req w))
          = netLog w1 @ [apiAddRequest req, getRequest ''/kosik'']"
    using w1 by (simp add: e finishMutation_success)
  show "formCalls (snd (addToCart ev tRead tStore req w)) = formCalls w"
    using w1 by (simp add: e finishMutation_success)
  show "netLog (snd (addToCart ev tRead tStore req w))
          = netLog w1 @ [apiAddRequest req, getRequest ''/kosik'']" by (rule l)
  show "filter isPost (netLog (snd (addToCart ev tRead tStore req w)))
          = filter isPost (netLog w) @ [apiAddRequest req]"
    using w1 by (simp add: l isPost_def apiAddRequest_def postRequest_def getRequest_def)
next
  assume a: "authenticated w \<and> quantity req \<noteq> 0
      \<and> transport ev (netLog w) (apiUpdateRequest req) = Inr response
      \<and> resStatus response = 200 \<and> resDataSuccess response"
  then have e: "updateCartItem ev req w =
      finishMutation ev ''Failed to update cart item''
        (Inr True, w \<lparr> netLog := netLog w @ [apiUpdateRequest req] \<rparr>)"
    by (simp add: updateCartItem_eq)
  show "formCalls (snd (updateCartItem ev req w)) = formCalls w"
    using a by (simp add: e finishMutation_success)
  show "netLog (snd (updateCartItem ev req w))
          = netLog w @ [apiUpdateRequest req, getRequest ''/kosik'']"
    using a by (simp add: e finishMutation_success)
next
  assume a: "authenticated w
      \<and> transport ev (netLog w) (apiRemoveRequest pid) = Inr response
      \<and> resStatus response = 200 \<and> resDataSuccess response"
  then have e: "removeFromCart ev pid w =
      finishMutation ev ''Failed to remove product from cart''
        (Inr True, w \<lparr> netLog := netLog w @ [apiRemoveRequest pid] \<rparr>)"
    by (simp add: removeFromCart_eq)
  show "formCalls (snd (removeFromCart ev pid w)) = formCalls w"
    using a by (simp add: e finishMutation_success)
  show "netLog (snd (removeFromCart ev pid w))
          = netLog w @ [apiRemoveRequest pid, getRequest ''/kosik'']"
    using a by (simp add: e finishMutation_success)
next
  assume a: "authenticated w \<and> quantity req = 0
      \<and> transport ev (netLog w) (apiRemoveRequest (productId req)) = Inr response
      \<and> resStatus response = 200 \<and> resDataSuccess response"
  then have e: "updateCartItem ev req w =
      finishMutation ev ''Failed to remove product from cart''
        (Inr True, w \<lparr> netLog := netLog w @ [apiRemoveRequest (productId req)] \<rparr>)"
    by (simp add: updateCartItem_def removeFromCart_eq)
  show "formCalls (snd (updateCartItem ev req w)) = formCalls w"
    using a by (simp add: e finishMutation_success)
  show "netLog (snd (updateCartItem ev req w))
          = netLog w @ [apiRemoveRequest (productId req), getRequest ''/kosik'']"
    using a by (simp add: e finishMutation_success)
qed

lemma parseProductPage_Some:
  "loader html = Some doc \<Longrightarrow> \<exists>p. parseProductPage loader html pid = Some p"
  by (simp add: parseProductPage_def Let_def)

lemma numToString_2: "numToString 2 = ''2''"
  by (simp add: numToString_def natToString.simps)

text \<open>The product lookup in the example shop: one request for the product page.\<close>

lemma shop_lookup:
  "\<exists>product w1. getProduct (shopEnv apiUp) 0 0 ''1440986'' loggedIn = (Some product, w1)
      \<and> netLog w1 = [getRequest ''/1440986-''] \<and> authenticated w1 \<and> formCalls w1 = 0"
proof -
  have "loadExample ''<discounted>'' = Some discountedPage" by (simp add: loadExample_def)
  then obtain p where p: "parseProductPage loadExample ''<discounted>'' ''1440986'' = Some p"
    using parseProductPage_Some by blast
  show ?thesis
    by (simp add: getProduct_def getCachedProduct_def loggedIn_def client_get_def shopEnv_def
        shopTransport_def cacheProduct_def getRequest_def p)
qed

lemma shop_form_step:
  "addToCartViaForm (shopEnv apiUp) twoOfProduct loggedIn =
     (Inr True,
      loggedIn \<lparr> netLog := [getRequest ''/1440986'',
                             postRequest ''/kosik/pridat-polozku''
                               [(''source'', ''detail''), (''product_id'', ''1440986''),
                                (''quantity'', ''2'')] formHeaders],
                  formCalls := 1 \<rparr>)"
  by (simp add: addToCartViaForm_def client_get_def client_post_def shopEnv_def shopTransport_def
      loadExample_def formPage_def formInput_def twoOfProduct_def loggedIn_def orStr_def
      firstAttr_def collectInputs_def params_append_def numToString_2 getRequest_def
      postRequest_def Let_def)

lemma shop_api_down:
  "addToCart (shopEnv False) 0 0 twoOfProduct loggedIn =
     (Inl (Error ''Failed to add product to cart''),
      snd (getProduct (shopEnv False) 0 0 ''1440986'' loggedIn)
        \<lparr> netLog := [getRequest ''/1440986-'', apiAddRequest twoOfProduct] \<rparr>)"
proof -
  obtain product w1 where l: "getProduct (shopEnv False) 0 0 ''1440986'' loggedIn = (Some product, w1)"
    and w1: "netLog w1 = [getRequest ''/1440986-'']" "authenticated w1" "formCalls w1 = 0"
    using shop_lookup[of False] by blast
  have pid: "productId twoOfProduct = ''1440986''" by (simp add: twoOfProduct_def)
  have down: "transport (shopEnv False) (netLog w1) (apiAddRequest twoOfProduct) = Inl (Error ''Network Error'')"
    by (simp add: shopEnv_def shopTransport_def apiAddRequest_def postRequest_def)
  have "addToCart (shopEnv False) 0 0 twoOfProduct loggedIn =
           (Inl (Error ''Failed to add product to cart''),
            w1 \<lparr> netLog := netLog w1 @ [apiAddRequest twoOfProduct] \<rparr>)"
    using api_failure_skips_form[of loggedIn "shopEnv False" 0 0 twoOfProduct product w1] l down
    by (simp add: pid loggedIn_def)
  then show ?thesis by (simp add: l w1)
qed

text \<open>
  Claim C1 fails on the code.  In the example shop the API is unreachable and
  the form step would succeed; \<open>addToCart\<close> nevertheless fails after the API
  call alone, and no form step is called.
\<close>

theorem addToCart_api_down:
  "fst (addToCart (shopEnv False) 0 0 twoOfProduct loggedIn) = Inl (Error ''Failed to add product to cart'')
   \<and> netLog (snd (addToCart (shopEnv False) 0 0 twoOfProduct loggedIn))
       = [getRequest ''/1440986-'', apiAddRequest twoOfProduct]
   \<and> formCalls (snd (addToCart (shopEnv False) 0 0 twoOfProduct loggedIn)) = 0
   \<and> fst (addToCartViaForm (shopEnv False) twoOfProduct loggedIn) = Inr True"
proof -
  have "formCalls (snd (getProduct (shopEnv False) 0 0 ''1440986'' loggedIn)) = 0"
    using getProduct_world[of "shopEnv False" 0 0 "''1440986''" loggedIn] by (simp add: loggedIn_def)
  then show ?thesis by (simp add: shop_api_down shop_form_step)
qed

text \<open>Claim C2 in the example shop with its API up.\<close>

theorem api_success_single_post_witness:
  "formCalls (snd (addToCart (shopEnv True) 0 0 twoOfProduct loggedIn)) = 0
   \<and> formCalls (snd (updateCartItem (shopEnv True) twoOfProduct loggedIn)) = 0
   \<and> formCalls (snd (removeFromCart (shopEnv True) ''1440986'' loggedIn)) = 0
   \<and> netLog (snd (addToCart (shopEnv True) 0 0 twoOfProduct loggedIn))
     = [getRequest ''/1440986-'', apiAddRequest twoOfProduct, getRequest ''/kosik'']
   \<and> filter isPost (netLog (snd (addToCart (shopEnv True) 0 0 twoOfProduct loggedIn)))
     = [apiAddRequest twoOfProduct]
   \<and> netLog (snd (updateCartItem (shopEnv True) twoOfProduct loggedIn))
     = [apiUpdateRequest twoOfProduct, getRequest ''/kosik'']
   \<and> netLog (snd (removeFromCart (shopEnv True) ''1440986'' loggedIn))
     = [apiRemoveRequest ''1440986'', getRequest ''/kosik'']
   \<and> netLog (snd (updateCartItem (shopEnv True) (twoOfProduct \<lparr> quantity := 0 \<rparr>) loggedIn))
     = [apiRemoveRequest ''1440986'', getRequest ''/kosik'']"
proof -
  let ?ok = "\<lparr> resStatus = 200, resData = ''{\"success\":true}'', resDataSuccess = True, resSetCookie = [] \<rparr>"
  obtain product w1 where l: "getProduct (shopEnv True) 0 0 ''1440986'' loggedIn = (Some product, w1)"
    and w1: "netLog w1 = [getRequest ''/1440986-'']"
    using shop_lookup[of True] by blast
  have pid: "productId twoOfProduct = ''1440986''" and q: "quantity twoOfProduct \<noteq> 0"
    by (simp_all add: twoOfProduct_def)
  have au: "authenticated loggedIn" and nl: "netLog loggedIn = []" by (simp_all add: loggedIn_def)
  have api: "transport (shopEnv True) sent (postRequest url body []) = Inr ?ok"
    if "url \<noteq> ''/kosik/pridat-polozku'' \<and> url \<noteq> ''/kosik/zmenit''" for sent url body
    using that by (simp add: shopEnv_def shopTransport_def postRequest_def)
  have add: "transport (shopEnv True) (netLog w1) (apiAddRequest twoOfProduct) = Inr ?ok"
    unfolding apiAddRequest_def by (rule api) simp
  have upd: "transport (shopEnv True) (netLog loggedIn) (apiUpdateRequest twoOfProduct) = Inr ?ok"
    unfolding apiUpdateRequest_def by (rule api) simp
  have rem: "transport (shopEnv True) (netLog loggedIn) (apiRemoveRequest ''1440986'') = Inr ?ok"
    unfolding apiRemoveRequest_def by (rule api) simp
  have l': "getProduct (shopEnv True) 0 0 (productId twoOfProduct) loggedIn = (Some product, w1)"
    using l by (simp add: pid)
  have rem': "transport (shopEnv True) (netLog loggedIn)
                (apiRemoveRequest (productId (twoOfProduct \<lparr> quantity := 0 \<rparr>))) = Inr ?ok"
    using rem by (simp add: pid)
  have s: "resStatus ?ok = 200 \<and> resDataSuccess ?ok" by simp
  have a1: "formCalls (snd (addToCart (shopEnv True) 0 0 twoOfProduct loggedIn)) = formCalls loggedIn
        \<and> netLog (snd (addToCart (shopEnv True) 0 0 twoOfProduct loggedIn))
          = netLog w1 @ [apiAddRequest twoOfProduct, getRequest ''/kosik'']
        \<and> filter isPost (netLog (snd (addToCart (shopEnv True) 0 0 twoOfProduct loggedIn)))
          = filter isPost (netLog loggedIn) @ [apiAddRequest twoOfProduct]"
    using api_success_single_post[of loggedIn "shopEnv True" 0 0 twoOfProduct product w1 ?ok,
        THEN conjunct1] l' add au s
    by blast
  have a2: "formCalls (snd (updateCartItem (shopEnv True) twoOfProduct loggedIn)) = formCalls loggedIn
        \<and> netLog (snd (updateCartItem (shopEnv True) twoOfProduct loggedIn))
          = netLog loggedIn @ [apiUpdateRequest twoOfProduct, getRequest ''/kosik'']"
    using api_success_single_post[of loggedIn "shopEnv True" 0 0 twoOfProduct product w1 ?ok,
        THEN conjunct2, THEN conjunct1] upd au q s
    by blast
  have a3: "formCalls (snd (removeFromCart (shopEnv True) ''1440986'' loggedIn)) = formCalls loggedIn
        \<and> netLog (snd (removeFromCart (shopEnv True) ''1440986'' loggedIn))
          = netLog loggedIn @ [apiRemoveRequest ''1440986'', getRequest ''/kosik'']"
    using api_success_single_post[of loggedIn "shopEnv True" 0 0 twoOfProduct product w1 ?ok
        "''1440986''", THEN conjunct2, THEN conjunct2, THEN conjunct1] rem au s
    by blast
  have q0: "quantity (twoOfProduct \<lparr> quantity := 0 \<rparr>) = 0" by simp
  have a4: "formCalls (snd (updateCartItem (shopEnv True) (twoOfProduct \<lparr> quantity := 0 \<rparr>) loggedIn))
            = formCalls loggedIn
        \<and> netLog (snd (updateCartItem (shopEnv True) (twoOfProduct \<lparr> quantity := 0 \<rparr>) loggedIn))
          = netLog loggedIn
            @ [apiRemoveRequest (productId (twoOfProduct \<lparr> quantity := 0 \<rparr>)), getRequest ''/kosik'']"
    using api_success_single_post[of loggedIn "shopEnv True" 0 0 "twoOfProduct \<lparr> quantity := 0 \<rparr>"
        product w1 ?ok "''1440986''", THEN conjunct2, THEN conjunct2, THEN conjunct2] rem' au q0 s
    by blast
  have f: "filter isPost (netLog loggedIn) = []" and fc: "formCalls loggedIn = 0"
    by (simp_all add: loggedIn_def)
  from a1 a2 a3 a4 show ?thesis
    by (simp add: w1 nl f fc pid isPost_def getRequest_def apiAddRequest_def postRequest_def)
qed

text \<open>
  Claim C3 as stated fails: the API is unreachable and the reference page has
  no \<open>_token\<close> field; the form step does not throw but submits the form and
  returns \<open>true\<close>, and the error \<open>addToCart\<close> throws is its general failure, not
  one about a missing token.
\<close>

theorem csrf_counterexample:
  "formPage ''input[name=\"_token\"]'' = []
   \<and> fst (addToCartViaForm (shopEnv False) twoOfProduct loggedIn) = Inr True
   \<and> fst (addToCart (shopEnv False) 0 0 twoOfProduct loggedIn) = Inl (Error ''Failed to add product to cart'')
   \<and> \<not> isCsrfTokenMissing (Error ''Failed to add product to cart'')"
  by (simp add: shop_api_down shop_form_step formPage_def isCsrfTokenMissing_def startsWith_def)

lemma collectInputs_foldl:
  "foldl (\<lambda>formData input.
            case (map_of (elemAttrs input) ''name'', map_of (elemAttrs input) ''value'') of
              (Some n, Some v) \<Rightarrow> if n \<noteq> [] \<and> v \<noteq> [] then params_append n v formData else formData
            | _ \<Rightarrow> formData)
     acc inputs = acc @ hiddenFields inputs"
proof (induction inputs arbitrary: acc)
  case Nil
  show ?case by (simp add: hiddenFields_def List.map_filter_simps)
next
  case (Cons input inputs)
  show ?case
    unfolding foldl_Cons Cons.IH
    by (simp add: hiddenFields_def List.map_filter_simps namedValue_def params_append_def
        split: option.splits)
qed

lemma collectInputs_hiddenFields: "collectInputs inputs = hiddenFields inputs"
  unfolding collectInputs_def collectInputs_foldl by simp

lemma addToCartViaForm_eq:
  "addToCartViaForm ev req w =
     (case transport ev (netLog w) (getRequest (''/'' @ productId req)) of
        Inl e \<Rightarrow> (Inr False, w \<lparr> netLog := netLog w @ [getRequest (''/'' @ productId req)],
                                formCalls := formCalls w + 1 \<rparr>)
      | Inr page \<Rightarrow>
          (case load ev (resData page) of
             None \<Rightarrow> (Inr False, w \<lparr> netLog := netLog w @ [getRequest (''/'' @ productId req)],
                                      formCalls := formCalls w + 1 \<rparr>)
           | Some doc \<Rightarrow>
               (Inr (case transport ev (netLog w @ [getRequest (''/'' @ productId req)])
                            (addFormRequest doc req) of
                       Inl e \<Rightarrow> False
                     | Inr response \<Rightarrow> resStatus response < 400),
                w \<lparr> netLog := netLog w @ [getRequest (''/'' @ productId req), addFormRequest doc req],
                    formCalls := formCalls w + 1 \<rparr>)))"
  by (simp add: addToCartViaForm_def client_get_def client_post_def getRequest_def
      addFormRequest_def collectInputs_hiddenFields Let_def split: sum.splits option.splits)

lemma updateCartViaForm_eq:
  "updateCartViaForm ev req w =
     (case transport ev (netLog w) (getRequest ''/kosik'') of
        Inl e \<Rightarrow> (Inr False, w \<lparr> netLog := netLog w @ [getRequest ''/kosik''],
                                formCalls := formCalls w + 1 \<rparr>)
      | Inr page \<Rightarrow>
          (case load ev (resData page) of
             None \<Rightarrow> (Inr False, w \<lparr> netLog := netLog w @ [getRequest ''/kosik''],
                                      formCalls := formCalls w + 1 \<rparr>)
           | Some doc \<Rightarrow>
               if doc (itemFormSelector (productId req)) = []
               then (Inr False, w \<lparr> netLog := netLog w @ [getRequest ''/kosik''],
                                    formCalls := formCalls w + 1 \<rparr>)
               else
                 (Inr (case transport ev (netLog w @ [getRequest ''/kosik''])
                              (updateFormRequest doc req) of
                         Inl e \<Rightarrow> False
                       | Inr response \<Rightarrow> resStatus response < 400),
                  w \<lparr> netLog := netLog w @ [getRequest ''/kosik'', updateFormRequest doc req],
                      formCalls := formCalls w + 1 \<rparr>)))"
  by (simp add: updateCartViaForm_def client_get_def client_post_def getRequest_def
      updateFormRequest_def collectInputs_hiddenFields Let_def split: sum.splits option.splits)

lemma removeFromCartViaForm_eq:
  "removeFromCartViaForm ev pid w =
     updateCartViaForm ev \<lparr> productId = pid, quantity = 0 \<rparr> (w \<lparr> formCalls := formCalls w + 1 \<rparr>)"
  by (simp add: removeFromCartViaForm_def updateCartViaForm_eq Let_def split: sum.splits option.splits)

text \<open>
  Claim C3, as the code has it.  The form steps of the cart never throw: every
  failure inside them comes back as \<open>false\<close>.  \<open>addToCartViaForm\<close> fetches the page
  of the product; when the fetch or the loading of the page fails it returns
  \<open>false\<close> and submits nothing.  Otherwise it looks for no token: it submits the
  form, to its action and with the fields found on the page and the product and
  quantity set over them, and returns whether the submission was answered with a
  status below 400 (\<open>false\<close> when the submission fails).  \<open>updateCartViaForm\<close> does
  the same with the form of the item on the cart page, and returns \<open>false\<close> and
  submits nothing also when the page has no such form.  \<open>removeFromCartViaForm\<close>
  is \<open>updateCartViaForm\<close> with quantity \<open>0\<close>.  The fields found are those the
  loop over the inputs of the form collects.
\<close>

theorem form_step_soft:
  "fst (addToCartViaForm ev req w) =
     Inr (case transport ev (netLog w) (getRequest (''/'' @ productId req)) of
            Inl e \<Rightarrow> False
          | Inr page \<Rightarrow>
              (case load ev (resData page) of
                 None \<Rightarrow> False
               | Some doc \<Rightarrow>
                   (case transport ev (netLog w @ [getRequest (''/'' @ productId req)])
                           (addFormRequest doc req) of
                      Inl e \<Rightarrow> False
                    | Inr response \<Rightarrow> resStatus response < 400)))
   \<and> netLog (snd (addToCartViaForm ev req w)) =
       netLog w @ getRequest (''/'' @ productId req) #
         (case transport ev (netLog w) (getRequest (''/'' @ productId req)) of
            Inl e \<Rightarrow> []
          | Inr page \<Rightarrow>
              (case load ev (resData page) of
                 None \<Rightarrow> []
               | Some doc \<Rightarrow> [addFormRequest doc req]))
   \<and> fst (updateCartViaForm ev req w) =
       Inr (case transport ev (netLog w) (getRequest ''/kosik'') of
              Inl e \<Rightarrow> False
            | Inr page \<Rightarrow>
                (case load ev (resData page) of
                   None \<Rightarrow> False
                 | Some doc \<Rightarrow>
                     if doc (itemFormSelector (productId req)) = [] then False
                     else
                       (case transport ev (netLog w @ [getRequest ''/kosik''])
                               (updateFormRequest doc req) of
                          Inl e \<Rightarrow> False
                        | Inr response \<Rightarrow> resStatus response < 400)))
   \<and> netLog (snd (updateCartViaForm ev req w)) =
       netLog w @ getRequest ''/kosik'' #
         (case transport ev (netLog w) (getRequest ''/kosik'') of
            Inl e \<Rightarrow> []
          | Inr page \<Rightarrow>
              (case load ev (resData page) of
                 None \<Rightarrow> []
               | Some doc \<Rightarrow>
                   if doc (itemFormSelector (productId req)) = [] then []
                   else [updateFormRequest doc req]))
   \<and> fst (removeFromCartViaForm ev pid w)
       = fst (updateCartViaForm ev \<lparr> productId = pid, quantity = 0 \<rparr> w)
   \<and> netLog (snd (removeFromCartViaForm ev pid w))
       = netLog (snd (updateCartViaForm ev \<lparr> productId = pid, quantity = 0 \<rparr> w))
   \<and> collectInputs inputs = hiddenFields inputs"
proof (intro conjI)
  show "collectInputs inputs = hiddenFields inputs"
    by (rule collectInputs_hiddenFields)
qed (simp_all add: addToCartViaForm_eq updateCartViaForm_eq removeFromCartViaForm_eq
    split: sum.splits option.splits)

text \<open>
  Claim C3 in the example shop with its API down.  The page of the product has
  no \<open>_token\<close> field: its form is submitted to its own action with its hidden
  field, the product and the quantity asked for, and the step returns \<open>true\<close>.
  For a product without a page the step returns \<open>false\<close> after the one fetch.
  The form of the item on the cart page is submitted with the new quantity, and
  with \<open>0\<close> for a removal; for a product that is not in the cart the step returns
  \<open>false\<close> after fetching the cart page.
\<close>

theorem form_step_soft_witness:
  "formPage ''input[name=\"_token\"]'' = []
   \<and> fst (addToCartViaForm (shopEnv False) twoOfProduct loggedIn) = Inr True
   \<and> netLog (snd (addToCartViaForm (shopEnv False) twoOfProduct loggedIn))
       = [getRequest ''/1440986'',
          postRequest ''/kosik/pridat-polozku''
            [(''source'', ''detail''), (''product_id'', ''1440986''), (''quantity'', ''2'')]
            formHeaders]
   \<and> fst (addToCartViaForm (shopEnv False) \<lparr> productId = ''7'', quantity = 2 \<rparr> loggedIn) = Inr False
   \<and> netLog (snd (addToCartViaForm (shopEnv False) \<lparr> productId = ''7'', quantity = 2 \<rparr> loggedIn))
       = [getRequest ''/7'']
   \<and> fst (updateCartViaForm (shopEnv False) twoOfProduct loggedIn) = Inr True
   \<and> netLog (snd (updateCartViaForm (shopEnv False) twoOfProduct loggedIn))
       = [getRequest ''/kosik'',
          postRequest ''/kosik/zmenit'' [(''item_id'', ''77''), (''quantity'', ''2'')] formHeaders]
   \<and> fst (updateCartViaForm (shopEnv False) \<lparr> productId = ''7'', quantity = 2 \<rparr> loggedIn) = Inr False
   \<and> netLog (snd (updateCartViaForm (shopEnv False) \<lparr> productId = ''7'', quantity = 2 \<rparr> loggedIn))
       = [getRequest ''/kosik'']
   \<and> fst (removeFromCartViaForm (shopEnv False) ''1440986'' loggedIn) = Inr True
   \<and> netLog (snd (removeFromCartViaForm (shopEnv False) ''1440986'' loggedIn))
       = [getRequest ''/kosik'',
          postRequest ''/kosik/zmenit'' [(''item_id'', ''77''), (''quantity'', ''0'')] formHeaders]
   \<and> collectInputs (elemFind (hd (formPage ''form[action*=\"cart\"], form[action*=\"kosik\"], .add-to-cart-form'')) ''input'')
       = [(''source'', ''detail''), (''product_id'', ''1440986''), (''quantity'', ''1'')]"
proof -
  have n: "netLog loggedIn = []" by (simp add: loggedIn_def)
  have g: "transport (shopEnv False) sent (getRequest url) =
      (if url = ''/1440986-''
         then Inr \<lparr> resStatus = 200, resData = ''<discounted>'', resDataSuccess = False, resSetCookie = [] \<rparr>
       else if url = ''/1440986''
         then Inr \<lparr> resStatus = 200, resData = ''<form>'', resDataSuccess = False, resSetCookie = [] \<rparr>
       else if url = ''/kosik''
         then Inr \<lparr> resStatus = 200, resData = ''<cart>'', resDataSuccess = False, resSetCookie = [] \<rparr>
       else Inl (Error ''Request failed with status code 404''))" for sent url
    by (simp add: shopEnv_def shopTransport_def getRequest_def)
  have l: "load (shopEnv False) = loadExample" by (simp add: shopEnv_def)
  have fields: "hiddenFields (elemFind (hd (formPage ''form[action*=\"cart\"], form[action*=\"kosik\"], .add-to-cart-form'')) ''input'')
       = [(''source'', ''detail''), (''product_id'', ''1440986''), (''quantity'', ''1'')]"
    by (simp add: formPage_def formInput_def hiddenFields_def List.map_filter_simps namedValue_def)
  have add: "addFormRequest formPage twoOfProduct =
      postRequest ''/kosik/pridat-polozku''
        [(''source'', ''detail''), (''product_id'', ''1440986''), (''quantity'', ''2'')] formHeaders"
    by (simp add: addFormRequest_def postRequest_def formPage_def formInput_def orStr_def
        firstAttr_def hiddenFields_def List.map_filter_simps namedValue_def twoOfProduct_def
        numToString_2 Let_def)
  have item: "cartPage (itemFormSelector ''1440986'') \<noteq> [] \<and> cartPage (itemFormSelector ''7'') = []"
    by (simp add: cartPage_def itemFormSelector_def)
  have upd: "updateFormRequest cartPage \<lparr> productId = ''1440986'', quantity = q \<rparr> =
      postRequest ''/kosik/zmenit'' [(''item_id'', ''77''), (''quantity'', numToString q)] formHeaders" for q
    by (simp add: updateFormRequest_def postRequest_def cartPage_def formInput_def orStr_def
        firstAttr_def hiddenFields_def List.map_filter_simps namedValue_def Let_def)
  have post: "transport (shopEnv False) sent (postRequest url body headers) =
      (if url = ''/kosik/pridat-polozku'' \<or> url = ''/kosik/zmenit''
       then Inr \<lparr> resStatus = 200, resData = ''<cart>'', resDataSuccess = False, resSetCookie = [] \<rparr>
       else Inl (Error ''Network Error''))" for sent url body headers
    by (simp add: shopEnv_def shopTransport_def postRequest_def)
  have two: "twoOfProduct = \<lparr> productId = ''1440986'', quantity = 2 \<rparr>" by (simp add: twoOfProduct_def)
  have ld: "loadExample ''<form>'' = Some formPage \<and> loadExample ''<cart>'' = Some cartPage"
    by (simp add: loadExample_def)
  have n0: "numToString 0 = ''0''" by (simp add: numToString_def natToString.simps)
  have a1: "fst (addToCartViaForm (shopEnv False) twoOfProduct loggedIn) = Inr True
      \<and> netLog (snd (addToCartViaForm (shopEnv False) twoOfProduct loggedIn))
         = [getRequest ''/1440986'',
            postRequest ''/kosik/pridat-polozku''
              [(''source'', ''detail''), (''product_id'', ''1440986''), (''quantity'', ''2'')]
              formHeaders]"
    using form_step_soft[of "shopEnv False" twoOfProduct loggedIn "''1440986''" "[]"] add
    by (simp add: n g l ld post two)
  have a2: "fst (addToCartViaForm (shopEnv False) \<lparr> productId = ''7'', quantity = 2 \<rparr> loggedIn) = Inr False
      \<and> netLog (snd (addToCartViaForm (shopEnv False) \<lparr> productId = ''7'', quantity = 2 \<rparr> loggedIn))
         = [getRequest ''/7'']"
    using form_step_soft[of "shopEnv False" "\<lparr> productId = ''7'', quantity = 2 \<rparr>" loggedIn "''7''" "[]"]
    by (simp add: n g)
  have a3: "fst (updateCartViaForm (shopEnv False) twoOfProduct loggedIn) = Inr True
      \<and> netLog (snd (updateCartViaForm (shopEnv False) twoOfProduct loggedIn))
         = [getRequest ''/kosik'',
            postRequest ''/kosik/zmenit'' [(''item_id'', ''77''), (''quantity'', ''2'')] formHeaders]"
    using form_step_soft[of "shopEnv False" twoOfProduct loggedIn "''1440986''" "[]"] item
    by (simp add: n g l ld post two upd numToString_2)
  have a4: "fst (updateCartViaForm (shopEnv False) \<lparr> productId = ''7'', quantity = 2 \<rparr> loggedIn) = Inr False
      \<and> netLog (snd (updateCartViaForm (shopEnv False) \<lparr> productId = ''7'', quantity = 2 \<rparr> loggedIn))
         = [getRequest ''/kosik'']"
    using form_step_soft[of "shopEnv False" "\<lparr> productId = ''7'', quantity = 2 \<rparr>" loggedIn "''7''" "[]"] item
    by (simp add: n g l ld)
  have a5: "fst (removeFromCartViaForm (shopEnv False) ''1440986'' loggedIn) = Inr True
      \<and> netLog (snd (removeFromCartViaForm (shopEnv False) ''1440986'' loggedIn))
         = [getRequest ''/kosik'',
            postRequest ''/kosik/zmenit'' [(''item_id'', ''77''), (''quantity'', ''0'')] formHeaders]"
    using form_step_soft[of "shopEnv False" "\<lparr> productId = ''1440986'', quantity = 0 \<rparr>" loggedIn
        "''1440986''" "[]"] item
    by (simp add: n g l ld post upd n0)
  have a6: "collectInputs (elemFind (hd (formPage ''form[action*=\"cart\"], form[action*=\"kosik\"], .add-to-cart-form'')) ''input'')
       = [(''source'', ''detail''), (''product_id'', ''1440986''), (''quantity'', ''1'')]"
    using form_step_soft[of "shopEnv False" twoOfProduct loggedIn "''1440986''"
        "elemFind (hd (formPage ''form[action*=\"cart\"], form[action*=\"kosik\"], .add-to-cart-form'')) ''input''"]
      fields
    by simp
  have tok: "formPage ''input[name=\"_token\"]'' = []" by (simp add: formPage_def)
  from tok a1 a2 a3 a4 a5 a6 show ?thesis by simp
qed

end
